theory Spec2Isabelle
  imports Complex_Main "HOL-Library.Sublist"
begin

section \<open>Input validator (core/validator.py)\<close>

text \<open>
  The thresholds of \<open>InputValidator.__init__\<close>. They are injectable, so they are fields of a
  record; \<open>default_validator\<close> holds the values of \<open>config.Settings\<close>.
\<close>

record validator_config =
  min_rr_count :: int
  max_rr_count :: int
  min_rr_value_ms :: int
  max_rr_value_ms :: int
  min_window_duration_s :: int
  max_window_duration_s :: int

definition default_validator :: validator_config where
  "default_validator =
     \<lparr>min_rr_count = 40, max_rr_count = 200, min_rr_value_ms = 200, max_rr_value_ms = 2000,
      min_window_duration_s = 30, max_window_duration_s = 120\<rparr>"

text \<open>
  The values stored in an \<open>error_details\<close> dict: counts, a duration, or a list of RR values.
  The dict itself is an association list in the insertion order of the dict literal.
\<close>

datatype detail = DInt int | DReal real | DIntList "int list"

text \<open>
  The dataclass \<open>ValidationResult\<close>. The field \<open>error_message\<close> is a formatted text of the
  values that \<open>error_details\<close> carries and is left out.
\<close>

record ValidationResult =
  is_valid :: bool
  error_code :: "string option"
  error_details :: "(string \<times> detail) list option"
  cleaned_rr_intervals :: "int list option"
  window_duration_s :: "real option"

definition reject :: "string \<Rightarrow> (string \<times> detail) list \<Rightarrow> ValidationResult" where
  "reject code details =
     \<lparr>is_valid = False, error_code = Some code, error_details = Some details,
      cleaned_rr_intervals = None, window_duration_s = None\<rparr>"

definition accept :: "int list option \<Rightarrow> real option \<Rightarrow> ValidationResult" where
  "accept cleaned dur =
     \<lparr>is_valid = True, error_code = None, error_details = None,
      cleaned_rr_intervals = cleaned, window_duration_s = dur\<rparr>"

text \<open>
  A \<open>datetime\<close>: the wall-clock reading in microseconds from a fixed origin, the identity of
  its \<open>tzinfo\<close> object (\<open>None\<close> for a naive value) and the value of \<open>utcoffset()\<close> in
  microseconds (\<open>None\<close> for a naive value, and for a \<open>tzinfo\<close> that gives no offset).
\<close>

datatype py_exception = TypeError | ValueError | IndexError | OverflowError

record datetime =
  wall_us :: int
  tzinfo :: "nat option"
  utcoffset_us :: "int option"

text \<open>
  \<open>datetime.__sub__\<close>: the difference of the wall clocks when both operands hold the same
  \<open>tzinfo\<close> object (two naive values too) or have equal offsets; \<open>TypeError\<close> when only one
  of them has an offset; the difference of the instants otherwise.
\<close>

definition datetime_sub :: "datetime \<Rightarrow> datetime \<Rightarrow> py_exception + int" where
  "datetime_sub a b =
     (let base = wall_us a - wall_us b in
      if tzinfo a = tzinfo b then Inr base
      else
        let myoff = utcoffset_us a; otoff = utcoffset_us b in
        if myoff = otoff then Inr base
        else
          case (myoff, otoff) of
            (Some m, Some ot) \<Rightarrow> Inr (base + ot - m)
          | _ \<Rightarrow> Inl TypeError)"

text \<open>\<open>timedelta.total_seconds()\<close>, the microseconds divided by \<open>10**6\<close>.\<close>

definition total_seconds :: "int \<Rightarrow> real" where
  "total_seconds us = real_of_int us / 1000000"

definition validate_count :: "validator_config \<Rightarrow> int list \<Rightarrow> ValidationResult" where
  "validate_count c rr_intervals_ms =
     (let count = int (length rr_intervals_ms) in
      if count < min_rr_count c then
        reject ''INSUFFICIENT_DATA''
          [(''received_count'', DInt count), (''minimum_required'', DInt (min_rr_count c))]
      else if count > max_rr_count c then
        reject ''EXCESSIVE_DATA''
          [(''received_count'', DInt count), (''maximum_allowed'', DInt (max_rr_count c))]
      else accept None None)"

text \<open>
  The \<open>for\<close> loop of \<open>_validate_values\<close>, over the three accumulators \<open>cleaned\<close>,
  \<open>invalid_count\<close> and \<open>invalid_values\<close>.
\<close>

fun values_loop ::
  "validator_config \<Rightarrow> int list \<Rightarrow> int list \<times> nat \<times> int list \<Rightarrow> int list \<times> nat \<times> int list" where
  "values_loop c [] acc = acc"
| "values_loop c (rr # rest) (cleaned, invalid_count, invalid_values) =
     (if min_rr_value_ms c \<le> rr \<and> rr \<le> max_rr_value_ms c
      then values_loop c rest (cleaned @ [rr], invalid_count, invalid_values)
      else values_loop c rest
             (cleaned, invalid_count + 1,
              if length invalid_values < 5 then invalid_values @ [rr] else invalid_values))"

definition validate_values :: "validator_config \<Rightarrow> int list \<Rightarrow> ValidationResult" where
  "validate_values c rr_intervals_ms =
     (case values_loop c rr_intervals_ms ([], 0, []) of
        (cleaned, invalid_count, invalid_values) \<Rightarrow>
          if real invalid_count > real (length rr_intervals_ms) * 0.5 then
            reject ''INVALID_RR_VALUES''
              [(''invalid_count'', DInt (int invalid_count)),
               (''total_count'', DInt (int (length rr_intervals_ms))),
               (''valid_range_ms'', DIntList [min_rr_value_ms c, max_rr_value_ms c]),
               (''sample_invalid_values'', DIntList invalid_values)]
          else accept (Some cleaned) None)"

text \<open>
  Both branches of the \<open>tzinfo\<close> test in \<open>_validate_window\<close> compute the same difference.
\<close>

definition validate_window ::
  "validator_config \<Rightarrow> datetime \<Rightarrow> datetime \<Rightarrow> py_exception + ValidationResult" where
  "validate_window c start_timestamp end_timestamp =
     (case (if tzinfo start_timestamp \<noteq> None \<and> tzinfo end_timestamp \<noteq> None
            then datetime_sub end_timestamp start_timestamp
            else datetime_sub end_timestamp start_timestamp) of
        Inl e \<Rightarrow> Inl e
      | Inr delta \<Rightarrow>
          (let duration = total_seconds delta in
           if duration < real_of_int (min_window_duration_s c) then
             Inr (reject ''WINDOW_TOO_SHORT''
                    [(''window_duration_s'', DReal duration),
                     (''minimum_required_s'', DInt (min_window_duration_s c))])
           else if duration > real_of_int (max_window_duration_s c) then
             Inr (reject ''WINDOW_TOO_LONG''
                    [(''window_duration_s'', DReal duration),
                     (''maximum_allowed_s'', DInt (max_window_duration_s c))])
           else Inr (accept None (Some duration))))"

definition validate ::
  "validator_config \<Rightarrow> int list \<Rightarrow> datetime \<Rightarrow> datetime \<Rightarrow> py_exception + ValidationResult" where
  "validate c rr_intervals_ms start_timestamp end_timestamp =
     (let count_result = validate_count c rr_intervals_ms in
      if \<not> ValidationResult.is_valid count_result then Inr count_result
      else
        let values_result = validate_values c rr_intervals_ms in
        if \<not> ValidationResult.is_valid values_result then Inr values_result
        else
          case cleaned_rr_intervals values_result of
            None \<Rightarrow> Inl TypeError
          | Some cleaned_rr \<Rightarrow>
              if int (length cleaned_rr) < min_rr_count c then
                Inr (reject ''INSUFFICIENT_VALID_DATA''
                       [(''original_count'', DInt (int (length rr_intervals_ms))),
                        (''valid_count'', DInt (int (length cleaned_rr))),
                        (''minimum_required'', DInt (min_rr_count c))])
              else
                case validate_window c start_timestamp end_timestamp of
                  Inl e \<Rightarrow> Inl e
                | Inr window_result \<Rightarrow>
                    if \<not> ValidationResult.is_valid window_result then Inr window_result
                    else Inr (accept (Some cleaned_rr) (window_duration_s window_result)))"

text \<open>The predicate of the value check and the two subsequences it separates.\<close>

definition in_range :: "validator_config \<Rightarrow> int \<Rightarrow> bool" where
  "in_range c rr \<longleftrightarrow> min_rr_value_ms c \<le> rr \<and> rr \<le> max_rr_value_ms c"

definition kept :: "validator_config \<Rightarrow> int list \<Rightarrow> int list" where
  "kept c xs = filter (in_range c) xs"

definition dropped :: "validator_config \<Rightarrow> int list \<Rightarrow> int list" where
  "dropped c xs = filter (\<lambda>rr. \<not> in_range c rr) xs"


section \<open>Numbers of the feature extractor\<close>

text \<open>
  A \<open>float64\<close> value: a finite value, given by the real number it stands for, or \<open>inf\<close>,
  \<open>-inf\<close>, \<open>nan\<close>. Zero has no sign here.
\<close>

datatype fnum = Fin real | PInf | NInf | NaN

text \<open>
  The operations that do not round: negation, absolute value, the comparisons (every
  comparison with \<open>nan\<close> is false), the finiteness test, and the maximum of numpy, which
  propagates \<open>nan\<close>.
\<close>

fun fneg :: "fnum \<Rightarrow> fnum" where
  "fneg (Fin a) = Fin (- a)"
| "fneg PInf = NInf"
| "fneg NInf = PInf"
| "fneg NaN = NaN"

fun fabs :: "fnum \<Rightarrow> fnum" where
  "fabs (Fin a) = Fin \<bar>a\<bar>"
| "fabs PInf = PInf"
| "fabs NInf = PInf"
| "fabs NaN = NaN"

fun fless :: "fnum \<Rightarrow> fnum \<Rightarrow> bool" where
  "fless (Fin a) (Fin b) = (a < b)"
| "fless NaN _ = False"
| "fless _ NaN = False"
| "fless _ NInf = False"
| "fless PInf _ = False"
| "fless NInf _ = True"
| "fless _ PInf = True"

definition fle :: "fnum \<Rightarrow> fnum \<Rightarrow> bool" where
  "fle a b \<longleftrightarrow> fless a b \<or> (a = b \<and> a \<noteq> NaN)"

fun isfinite :: "fnum \<Rightarrow> bool" where
  "isfinite (Fin a) = True"
| "isfinite _ = False"

definition fmax :: "fnum \<Rightarrow> fnum \<Rightarrow> fnum" where
  "fmax a b = (if a = NaN \<or> b = NaN then NaN else if fless a b then b else a)"

text \<open>
  The operations that round are numpy's and the processor's, not code of this repository:
  they are parameters of the model, one field for each operation the extractor calls.
  \<open>np_add\<close>, \<open>np_sub\<close>, \<open>np_mul\<close> and \<open>np_div\<close> are the four \<open>float64\<close> operators (Python's
  own \<open>float\<close> operators are the same operations, and every division the extractor makes on
  Python floats is guarded against a zero divisor); \<open>np_pow2\<close> is \<open>x ** 2\<close>; \<open>np_sqrt\<close> and
  \<open>np_log\<close> are \<open>np.sqrt\<close> and \<open>np.log\<close>; \<open>np_mean\<close> is \<open>np.mean\<close>; \<open>np_std_ddof1\<close> is
  \<open>np.std(x, ddof=1)\<close>; \<open>np_trapz y x\<close> is \<open>np.trapezoid(y, x)\<close> (\<open>np.trapz\<close> in older
  versions); \<open>np_linspace0 stop num\<close> is \<open>np.linspace(0, stop, num)\<close>, \<open>None\<close> when it raises.
  None of the other calls raises on an array of floats: a division by zero or the mean of an
  empty array gives \<open>inf\<close> or \<open>nan\<close> with a warning.
\<close>

record numpy =
  np_add :: "fnum \<Rightarrow> fnum \<Rightarrow> fnum"
  np_sub :: "fnum \<Rightarrow> fnum \<Rightarrow> fnum"
  np_mul :: "fnum \<Rightarrow> fnum \<Rightarrow> fnum"
  np_div :: "fnum \<Rightarrow> fnum \<Rightarrow> fnum"
  np_pow2 :: "fnum \<Rightarrow> fnum"
  np_sqrt :: "fnum \<Rightarrow> fnum"
  np_log :: "fnum \<Rightarrow> fnum"
  np_mean :: "fnum list \<Rightarrow> fnum"
  np_std_ddof1 :: "fnum list \<Rightarrow> fnum"
  np_trapz :: "fnum list \<Rightarrow> fnum list \<Rightarrow> fnum"
  np_linspace0 :: "fnum \<Rightarrow> int \<Rightarrow> fnum list option"

text \<open>\<open>np.diff\<close>: the differences \<open>a[i+1] - a[i]\<close>.\<close>

fun np_diff :: "numpy \<Rightarrow> fnum list \<Rightarrow> fnum list" where
  "np_diff np (a # b # rest) = np_sub np b a # np_diff np (b # rest)"
| "np_diff np _ = []"

text \<open>\<open>np.cumsum\<close>: the running sums, each the preceding one plus the next element.\<close>

fun np_cumsum_from :: "numpy \<Rightarrow> fnum \<Rightarrow> fnum list \<Rightarrow> fnum list" where
  "np_cumsum_from np acc [] = []"
| "np_cumsum_from np acc (x # xs) = np_add np acc x # np_cumsum_from np (np_add np acc x) xs"

fun np_cumsum :: "numpy \<Rightarrow> fnum list \<Rightarrow> fnum list" where
  "np_cumsum np [] = []"
| "np_cumsum np (x # xs) = x # np_cumsum_from np x xs"

text \<open>
  \<open>np.max\<close> of an array: \<open>ValueError\<close> on an empty one.
\<close>

definition np_max :: "fnum list \<Rightarrow> py_exception + fnum" where
  "np_max xs = (case xs of [] \<Rightarrow> Inl ValueError | d # ds \<Rightarrow> Inr (fold fmax ds d))"

text \<open>
  Python's \<open>int(x)\<close> on a float: truncation towards zero, \<open>ValueError\<close> on \<open>nan\<close> and
  \<open>OverflowError\<close> on an infinity.
\<close>

fun py_int :: "fnum \<Rightarrow> py_exception + int" where
  "py_int (Fin x) = Inr (if 0 \<le> x then \<lfloor>x\<rfloor> else \<lceil>x\<rceil>)"
| "py_int NaN = Inl ValueError"
| "py_int _ = Inl OverflowError"

section \<open>Feature records (core/feature\_extractor.py)\<close>

record TimeDomainFeatures =
  mean_rr :: fnum
  sdnn :: fnum
  rmssd :: fnum
  pnn50 :: fnum
  pnn20 :: fnum
  mean_hr :: fnum
  std_hr :: fnum
  cv_rr :: fnum
  num_intervals :: nat
  is_valid :: bool

record FrequencyDomainFeatures =
  lf_power :: fnum
  hf_power :: fnum
  lf_hf_ratio :: fnum
  total_power :: fnum
  lf_nu :: fnum
  hf_nu :: fnum
  num_intervals :: nat
  is_valid :: bool

record NonlinearFeatures =
  sample_entropy :: fnum
  num_intervals :: nat
  is_valid :: bool

record HRVFeatures =
  time_domain :: TimeDomainFeatures
  frequency_domain :: FrequencyDomainFeatures
  nonlinear :: NonlinearFeatures
  num_intervals :: nat
  is_valid :: bool
  invalid_domains :: "string list"

text \<open>
  A Python dict keeps its keys in insertion order, and storing under a key that is present
  keeps the key's position: an association list with \<open>dict_set\<close>.
\<close>

fun dict_set :: "'k \<Rightarrow> 'v \<Rightarrow> ('k \<times> 'v) list \<Rightarrow> ('k \<times> 'v) list" where
  "dict_set k v [] = [(k, v)]"
| "dict_set k v (p # ps) = (if fst p = k then (k, v) # ps else p # dict_set k v ps)"

fun dict_update :: "('k \<times> 'v) list \<Rightarrow> ('k \<times> 'v) list \<Rightarrow> ('k \<times> 'v) list" where
  "dict_update d [] = d"
| "dict_update d ((k, v) # rest) = dict_update (dict_set k v d) rest"

fun dict_get :: "('k \<times> 'v) list \<Rightarrow> 'k \<Rightarrow> 'v option" where
  "dict_get [] k = None"
| "dict_get (p # ps) k = (if fst p = k then Some (snd p) else dict_get ps k)"

definition td_to_dict :: "TimeDomainFeatures \<Rightarrow> (string \<times> fnum) list" where
  "td_to_dict f =
     dict_update []
       [(''mean_rr'', mean_rr f), (''sdnn'', sdnn f), (''rmssd'', rmssd f), (''pnn50'', pnn50 f),
        (''pnn20'', pnn20 f), (''mean_hr'', mean_hr f), (''std_hr'', std_hr f),
        (''cv_rr'', cv_rr f)]"

definition td_to_array :: "TimeDomainFeatures \<Rightarrow> fnum list" where
  "td_to_array f =
     [mean_rr f, sdnn f, rmssd f, pnn50 f, pnn20 f, mean_hr f, std_hr f, cv_rr f]"

definition fd_to_dict :: "FrequencyDomainFeatures \<Rightarrow> (string \<times> fnum) list" where
  "fd_to_dict f =
     dict_update []
       [(''lf_power'', lf_power f), (''hf_power'', hf_power f), (''lf_hf_ratio'', lf_hf_ratio f),
        (''total_power'', total_power f), (''lf_nu'', lf_nu f), (''hf_nu'', hf_nu f)]"

definition fd_to_array :: "FrequencyDomainFeatures \<Rightarrow> fnum list" where
  "fd_to_array f = [lf_power f, hf_power f, lf_hf_ratio f, total_power f, lf_nu f, hf_nu f]"

definition nl_to_dict :: "NonlinearFeatures \<Rightarrow> (string \<times> fnum) list" where
  "nl_to_dict f = dict_update [] [(''sample_entropy'', sample_entropy f)]"

definition nl_to_array :: "NonlinearFeatures \<Rightarrow> fnum list" where
  "nl_to_array f = [sample_entropy f]"

definition to_dict :: "HRVFeatures \<Rightarrow> (string \<times> fnum) list" where
  "to_dict f =
     (let result = [];
          result = dict_update result (td_to_dict (time_domain f));
          result = dict_update result (fd_to_dict (frequency_domain f));
          result = dict_update result (nl_to_dict (nonlinear f))
      in result)"

definition to_array :: "HRVFeatures \<Rightarrow> fnum list" where
  "to_array f =
     concat [td_to_array (time_domain f), fd_to_array (frequency_domain f),
             nl_to_array (nonlinear f)]"

definition FEATURE_NAMES :: "string list" where
  "FEATURE_NAMES =
     [''mean_rr'', ''sdnn'', ''rmssd'', ''pnn50'', ''pnn20'', ''mean_hr'', ''std_hr'', ''cv_rr'',
      ''lf_power'', ''hf_power'', ''lf_hf_ratio'', ''total_power'', ''lf_nu'', ''hf_nu'',
      ''sample_entropy'']"

text \<open>
  The band limits are the \<open>float64\<close> values of the literals \<open>0.04\<close>, \<open>0.15\<close> and \<open>0.40\<close>.
\<close>

definition float_0_04 :: real where
  "float_0_04 = 5764607523034235 / 2 ^ 57"

definition float_0_15 :: real where
  "float_0_15 = 5404319552844595 / 2 ^ 55"

definition float_0_40 :: real where
  "float_0_40 = 3602879701896397 / 2 ^ 53"

definition LF_BAND :: "real \<times> real" where
  "LF_BAND = (float_0_04, float_0_15)"

definition HF_BAND :: "real \<times> real" where
  "HF_BAND = (float_0_15, float_0_40)"


section \<open>The unified extractor\<close>

text \<open>
  The constructor arguments of \<open>HRVFeatureExtractor\<close> and their defaults; \<open>float_0_2\<close> is the
  \<open>float64\<close> value of the literal \<open>0.2\<close>.
\<close>

record extractor_config =
  td_min_intervals :: int
  fd_resample_rate :: real
  fd_min_intervals :: int
  nl_m :: nat
  nl_r_factor :: real
  nl_min_intervals :: int

definition float_0_2 :: real where
  "float_0_2 = 3602879701896397 / 2 ^ 54"

definition default_extractor :: extractor_config where
  "default_extractor =
     \<lparr>td_min_intervals = 10, fd_resample_rate = 4, fd_min_intervals = 20, nl_m = 2,
      nl_r_factor = float_0_2, nl_min_intervals = 30\<rparr>"

text \<open>
  The two scipy routines are not code of this repository and are parameters of the model.
  \<open>interp1d_cubic x y\<close> stands for \<open>interpolate.interp1d(x, y, kind='cubic',
  fill_value='extrapolate')\<close> and gives the interpolating function, or \<open>None\<close> when scipy
  raises. \<open>welch x fs nperseg noverlap\<close> stands for \<open>signal.welch(x, fs=fs, nperseg=nperseg,
  noverlap=noverlap, detrend='linear', scaling='density')\<close> and gives the frequencies and the
  power spectral density, two arrays of one length, or \<open>None\<close> when scipy raises.
\<close>

record scipy =
  interp1d_cubic :: "fnum list \<Rightarrow> fnum list \<Rightarrow> (fnum \<Rightarrow> fnum) option"
  welch :: "fnum list \<Rightarrow> real \<Rightarrow> int \<Rightarrow> int \<Rightarrow> (real list \<times> fnum list) option"

subsection \<open>Time domain\<close>

definition invalid_time_domain :: "nat \<Rightarrow> TimeDomainFeatures" where
  "invalid_time_domain n =
     \<lparr>mean_rr = NaN, sdnn = NaN, rmssd = NaN, pnn50 = NaN, pnn20 = NaN, mean_hr = NaN,
      std_hr = NaN, cv_rr = NaN, num_intervals = n, is_valid = False\<rparr>"

definition validate_time_domain :: "TimeDomainFeatures \<Rightarrow> bool" where
  "validate_time_domain f =
     (let values = td_to_array f in
      if list_ex (\<lambda>v. \<not> isfinite v) values then False
      else if fle (mean_rr f) (Fin 0) \<or> fless (Fin 3000) (mean_rr f) then False
      else if fle (mean_hr f) (Fin 0) \<or> fless (Fin 300) (mean_hr f) then False
      else if fless (sdnn f) (Fin 0) \<or> fless (rmssd f) (Fin 0) then False
      else if fless (pnn50 f) (Fin 0) \<or> fless (Fin 100) (pnn50 f) then False
      else True)"

text \<open>\<open>np.sum(abs_diff > x) / len(diff) * 100\<close>, guarded by \<open>len(diff) > 0\<close>.\<close>

definition pnn :: "numpy \<Rightarrow> real \<Rightarrow> fnum list \<Rightarrow> fnum" where
  "pnn np x diff =
     (let abs_diff = map fabs diff in
      if length diff > 0 then
        np_mul np
          (np_div np (Fin (real (length (filter (\<lambda>d. fless (Fin x) d) abs_diff))))
                     (Fin (real (length diff))))
          (Fin 100)
      else Fin 0)"

text \<open>
  The features that \<open>_extract_time_domain\<close> builds before its validity check. No call in the
  \<open>try\<close> block raises on an array of floats, so the \<open>except\<close> branch has no case here.
\<close>

definition td_raw :: "numpy \<Rightarrow> real list \<Rightarrow> TimeDomainFeatures" where
  "td_raw np rr_ms =
     (let n = length rr_ms;
          rr = map Fin rr_ms;
          mean_rr = np_mean np rr;
          sdnn = np_std_ddof1 np rr;
          diff = np_diff np rr;
          rmssd = np_sqrt np (np_mean np (map (np_pow2 np) diff));
          pnn50 = pnn np 50 diff;
          pnn20 = pnn np 20 diff;
          hr_bpm = map (\<lambda>x. np_div np (Fin 60000) x) rr;
          mean_hr = np_mean np hr_bpm;
          std_hr = np_std_ddof1 np hr_bpm;
          cv_rr = (if fless (Fin 0) mean_rr then np_mul np (np_div np sdnn mean_rr) (Fin 100)
                   else Fin 0)
      in \<lparr>mean_rr = mean_rr, sdnn = sdnn, rmssd = rmssd, pnn50 = pnn50, pnn20 = pnn20,
          mean_hr = mean_hr, std_hr = std_hr, cv_rr = cv_rr, num_intervals = n,
          is_valid = True\<rparr>)"

definition extract_time_domain ::
  "numpy \<Rightarrow> extractor_config \<Rightarrow> real list \<Rightarrow> TimeDomainFeatures" where
  "extract_time_domain np c rr_ms =
     (let n = length rr_ms in
      if int n < td_min_intervals c then invalid_time_domain n
      else
        let features = td_raw np rr_ms
        in if \<not> validate_time_domain features
           then \<lparr>mean_rr = TimeDomainFeatures.mean_rr features, sdnn = TimeDomainFeatures.sdnn features,
                 rmssd = TimeDomainFeatures.rmssd features, pnn50 = TimeDomainFeatures.pnn50 features,
                 pnn20 = TimeDomainFeatures.pnn20 features,
                 mean_hr = TimeDomainFeatures.mean_hr features,
                 std_hr = TimeDomainFeatures.std_hr features, cv_rr = TimeDomainFeatures.cv_rr features,
                 num_intervals = n, is_valid = False\<rparr>
           else features)"

subsection \<open>Frequency domain\<close>

definition invalid_frequency_domain :: "nat \<Rightarrow> FrequencyDomainFeatures" where
  "invalid_frequency_domain n =
     \<lparr>lf_power = NaN, hf_power = NaN, lf_hf_ratio = NaN, total_power = NaN, lf_nu = NaN,
      hf_nu = NaN, num_intervals = n, is_valid = False\<rparr>"

definition validate_frequency_domain :: "FrequencyDomainFeatures \<Rightarrow> bool" where
  "validate_frequency_domain f =
     (if \<not> isfinite (lf_power f) \<or> \<not> isfinite (hf_power f) then False
      else if fless (lf_power f) (Fin 0) \<or> fless (hf_power f) (Fin 0) then False
      else True)"

text \<open>
  The time axis of \<open>_extract_frequency_domain\<close>: the cumulative sum, divided by 1000, with a
  zero inserted in front and the last element cut off.
\<close>

definition time_axis :: "numpy \<Rightarrow> real list \<Rightarrow> fnum list" where
  "time_axis np rr_ms =
     (let time_ms = np_cumsum np (map Fin rr_ms);
          time_sec = map (\<lambda>t. np_div np t (Fin 1000)) time_ms
      in butlast (Fin 0 # time_sec))"

text \<open>
  The grid \<open>t_uniform\<close> of \<open>_interpolate_rr\<close>: \<open>time_sec[-1]\<close> raises on an empty axis,
  \<open>int\<close> raises on a product that is not finite, and \<open>np.linspace\<close> is called with its
  default \<open>endpoint=True\<close>.
\<close>

definition uniform_grid ::
  "numpy \<Rightarrow> extractor_config \<Rightarrow> fnum list \<Rightarrow> py_exception + fnum list" where
  "uniform_grid np c time_sec =
     (if time_sec = [] then Inl IndexError
      else
        let duration = last time_sec in
        case py_int (np_mul np duration (Fin (fd_resample_rate c))) of
          Inl e \<Rightarrow> Inl e
        | Inr n_samples \<Rightarrow>
            (case np_linspace0 np duration n_samples of
               None \<Rightarrow> Inl ValueError
             | Some t_uniform \<Rightarrow> Inr t_uniform))"

definition interpolate_rr ::
  "numpy \<Rightarrow> extractor_config \<Rightarrow> scipy \<Rightarrow> real list \<Rightarrow> fnum list
     \<Rightarrow> py_exception + fnum list \<times> fnum list" where
  "interpolate_rr np c lib rr_ms time_sec =
     (case interp1d_cubic lib time_sec (map Fin rr_ms) of
        None \<Rightarrow> Inl ValueError
      | Some f_interp \<Rightarrow>
          (case uniform_grid np c time_sec of
             Inl e \<Rightarrow> Inl e
           | Inr t_uniform \<Rightarrow> Inr (map f_interp t_uniform, t_uniform)))"

definition compute_psd ::
  "extractor_config \<Rightarrow> scipy \<Rightarrow> fnum list \<Rightarrow> py_exception + real list \<times> fnum list" where
  "compute_psd c lib rr_interp =
     (let nperseg = max 16 (int (length rr_interp) div 2) in
      case welch lib rr_interp (fd_resample_rate c) nperseg (nperseg div 2) of
        None \<Rightarrow> Inl ValueError
      | Some r \<Rightarrow> Inr r)"

text \<open>
  The bins that the mask \<open>idx\<close> of \<open>_band_power\<close> selects: those whose frequency lies
  between the two limits of the band, both included.
\<close>

definition band_bins :: "real list \<Rightarrow> fnum list \<Rightarrow> real \<times> real \<Rightarrow> (real \<times> fnum) list" where
  "band_bins freqs psd band = filter (\<lambda>(f, p). fst band \<le> f \<and> f \<le> snd band) (zip freqs psd)"

definition band_power :: "numpy \<Rightarrow> real list \<Rightarrow> fnum list \<Rightarrow> real \<times> real \<Rightarrow> fnum" where
  "band_power np freqs psd band =
     (let idx = band_bins freqs psd band in
      if idx = [] then Fin 0
      else np_trapz np (map snd idx) (map (\<lambda>p. Fin (fst p)) idx))"

text \<open>The part of \<open>_extract_frequency_domain\<close> after the spectral estimate.\<close>

definition spectral_features ::
  "numpy \<Rightarrow> nat \<Rightarrow> real list \<Rightarrow> fnum list \<Rightarrow> FrequencyDomainFeatures" where
  "spectral_features np n freqs psd =
     (let lf_power = band_power np freqs psd LF_BAND;
          hf_power = band_power np freqs psd HF_BAND;
          total_power = np_add np lf_power hf_power;
          lf_hf_ratio = (if fless (Fin 0) hf_power then np_div np lf_power hf_power else NaN);
          lf_nu = (if fless (Fin 0) total_power
                   then np_mul np (np_div np lf_power total_power) (Fin 100) else NaN);
          hf_nu = (if fless (Fin 0) total_power
                   then np_mul np (np_div np hf_power total_power) (Fin 100) else NaN);
          features =
            \<lparr>lf_power = lf_power, hf_power = hf_power, lf_hf_ratio = lf_hf_ratio,
             total_power = total_power, lf_nu = lf_nu, hf_nu = hf_nu, num_intervals = n,
             is_valid = True\<rparr>
      in if \<not> validate_frequency_domain features
         then \<lparr>lf_power = FrequencyDomainFeatures.lf_power features,
               hf_power = FrequencyDomainFeatures.hf_power features,
               lf_hf_ratio = FrequencyDomainFeatures.lf_hf_ratio features,
               total_power = FrequencyDomainFeatures.total_power features,
               lf_nu = FrequencyDomainFeatures.lf_nu features,
               hf_nu = FrequencyDomainFeatures.hf_nu features,
               num_intervals = n, is_valid = False\<rparr>
         else features)"

definition extract_frequency_domain ::
  "numpy \<Rightarrow> extractor_config \<Rightarrow> scipy \<Rightarrow> real list \<Rightarrow> FrequencyDomainFeatures" where
  "extract_frequency_domain np c lib rr_ms =
     (let n = length rr_ms in
      if int n < fd_min_intervals c then invalid_frequency_domain n
      else
        let time_sec = time_axis np rr_ms in
        case interpolate_rr np c lib rr_ms time_sec of
          Inl e \<Rightarrow> invalid_frequency_domain n
        | Inr (rr_interp, t_interp) \<Rightarrow>
            if length rr_interp < 10 then invalid_frequency_domain n
            else
              case compute_psd c lib rr_interp of
                Inl e \<Rightarrow> invalid_frequency_domain n
              | Inr (freqs, psd) \<Rightarrow> spectral_features np n freqs psd)"

subsection \<open>Nonlinear domain\<close>

definition invalid_nonlinear :: "nat \<Rightarrow> NonlinearFeatures" where
  "invalid_nonlinear n = \<lparr>sample_entropy = NaN, num_intervals = n, is_valid = False\<rparr>"

definition validate_nonlinear :: "NonlinearFeatures \<Rightarrow> bool" where
  "validate_nonlinear f =
     (if \<not> isfinite (sample_entropy f) then False
      else if fless (sample_entropy f) (Fin 0) then False
      else True)"

text \<open>\<open>np.max(np.abs(a - b))\<close> of two templates.\<close>

definition chebyshev :: "numpy \<Rightarrow> real list \<Rightarrow> real list \<Rightarrow> py_exception + fnum" where
  "chebyshev np a b = np_max (map2 (\<lambda>x y. fabs (np_sub np (Fin x) (Fin y))) a b)"

text \<open>
  The inner loop of \<open>_count_matches\<close> over the templates \<open>j > i\<close>, and the outer loop over
  \<open>i\<close>; \<open>count\<close> is the running counter.
\<close>

fun count_inner ::
  "numpy \<Rightarrow> real list \<Rightarrow> real list list \<Rightarrow> fnum \<Rightarrow> nat \<Rightarrow> py_exception + nat" where
  "count_inner np ti [] r count = Inr count"
| "count_inner np ti (tj # rest) r count =
     (case chebyshev np ti tj of
        Inl e \<Rightarrow> Inl e
      | Inr dst \<Rightarrow> count_inner np ti rest r (if fle dst r then count + 1 else count))"

fun count_outer :: "numpy \<Rightarrow> real list list \<Rightarrow> fnum \<Rightarrow> nat \<Rightarrow> py_exception + nat" where
  "count_outer np [] r count = Inr count"
| "count_outer np (ti # rest) r count =
     (case count_inner np ti rest r count of
        Inl e \<Rightarrow> Inl e
      | Inr count' \<Rightarrow> count_outer np rest r count')"

definition templates :: "real list \<Rightarrow> nat \<Rightarrow> real list list" where
  "templates signal_data m =
     map (\<lambda>i. take m (drop i signal_data)) [0 ..< length signal_data - m]"

definition count_matches :: "numpy \<Rightarrow> real list \<Rightarrow> nat \<Rightarrow> fnum \<Rightarrow> py_exception + nat" where
  "count_matches np signal_data m r = count_outer np (templates signal_data m) r 0"

definition sample_entropy_of ::
  "numpy \<Rightarrow> real list \<Rightarrow> nat \<Rightarrow> real \<Rightarrow> py_exception + fnum" where
  "sample_entropy_of np signal_data m r_factor =
     (let r = np_mul np (Fin r_factor) (np_std_ddof1 np (map Fin signal_data)) in
      if r = Fin 0 then Inr (Fin 0)
      else
        case count_matches np signal_data m r of
          Inl e \<Rightarrow> Inl e
        | Inr B \<Rightarrow>
            (case count_matches np signal_data (m + 1) r of
               Inl e \<Rightarrow> Inl e
             | Inr A \<Rightarrow>
                 if A = 0 \<or> B = 0 then Inr NaN
                 else Inr (fneg (np_log np (np_div np (Fin (real A)) (Fin (real B)))))))"

definition extract_nonlinear ::
  "numpy \<Rightarrow> extractor_config \<Rightarrow> real list \<Rightarrow> NonlinearFeatures" where
  "extract_nonlinear np c rr_ms =
     (let n = length rr_ms in
      if int n < nl_min_intervals c then invalid_nonlinear n
      else
        case sample_entropy_of np rr_ms (nl_m c) (nl_r_factor c) of
          Inl e \<Rightarrow> invalid_nonlinear n
        | Inr sampen \<Rightarrow>
            let features = \<lparr>sample_entropy = sampen, num_intervals = n, is_valid = True\<rparr>
            in if \<not> validate_nonlinear features
               then \<lparr>sample_entropy = NonlinearFeatures.sample_entropy features,
                     num_intervals = n, is_valid = False\<rparr>
               else features)"

subsection \<open>Aggregation\<close>

text \<open>\<open>HRVFeatureExtractor.extract\<close> (the name \<open>extract\<close> is a keyword of Isabelle).\<close>

definition hrv_extract ::
  "numpy \<Rightarrow> extractor_config \<Rightarrow> scipy \<Rightarrow> real list \<Rightarrow> HRVFeatures" where
  "hrv_extract np c lib rr_ms =
     (let n = length rr_ms;
          invalid_domains = [];
          td_features = extract_time_domain np c rr_ms;
          invalid_domains =
            (if \<not> TimeDomainFeatures.is_valid td_features
             then invalid_domains @ [''time_domain''] else invalid_domains);
          fd_features = extract_frequency_domain np c lib rr_ms;
          invalid_domains =
            (if \<not> FrequencyDomainFeatures.is_valid fd_features
             then invalid_domains @ [''frequency_domain''] else invalid_domains);
          nl_features = extract_nonlinear np c rr_ms;
          invalid_domains =
            (if \<not> NonlinearFeatures.is_valid nl_features
             then invalid_domains @ [''nonlinear''] else invalid_domains);
          is_valid = TimeDomainFeatures.is_valid td_features
      in \<lparr>time_domain = td_features, frequency_domain = fd_features, nonlinear = nl_features,
          num_intervals = n, is_valid = is_valid, invalid_domains = invalid_domains\<rparr>)"

text \<open>A value of \<open>HRVFeatures\<close> used to instantiate statements.\<close>

definition example_features :: HRVFeatures where
  "example_features =
     \<lparr>time_domain =
        \<lparr>mean_rr = Fin 800, sdnn = Fin 40, rmssd = Fin 30, pnn50 = Fin 10, pnn20 = Fin 35,
         mean_hr = Fin 75, std_hr = Fin 4, cv_rr = Fin 5, num_intervals = 75, is_valid = True\<rparr>,
      frequency_domain =
        \<lparr>lf_power = Fin 500, hf_power = NaN, lf_hf_ratio = NaN, total_power = NaN,
         lf_nu = NaN, hf_nu = NaN, num_intervals = 75, is_valid = False\<rparr>,
      nonlinear = \<lparr>sample_entropy = Fin 1, num_intervals = 75, is_valid = True\<rparr>,
      num_intervals = 75, is_valid = True, invalid_domains = [''frequency_domain'']\<rparr>"

section \<open>Predictor (core/predictor.py)\<close>

text \<open>
  The booster is xgboost's and is a parameter: applied to the feature row and the feature
  names (the \<open>DMatrix\<close>) it gives \<open>prediction[0]\<close>, or raises \<open>XGBoostError\<close> or another
  exception. \<open>model = None\<close> is a predictor that has not been loaded.
\<close>

datatype booster_outcome = Predicted fnum | RaisedXGBoostError | RaisedOther

record ArrhythmiaPredictor =
  model :: "(fnum list \<Rightarrow> string list \<Rightarrow> booster_outcome) option"
  feature_names :: "string list"

text \<open>
  \<open>InferenceError\<close> with what its message reports. An \<open>InferenceError\<close> raised inside the
  \<open>try\<close> block is caught by \<open>except Exception\<close> and raised again as an unexpected prediction
  error, again an \<open>InferenceError\<close>.
\<close>

datatype predict_failure =
  FeatureCountMismatch nat nat | InvalidValues "string list" | OtherException

datatype InferenceError =
  ModelNotLoaded | InvalidFeatures "string list" | XGBoostPredictionError
  | UnexpectedPredictionError predict_failure

text \<open>Python's \<open>min(a, b)\<close> and \<open>max(a, b)\<close> keep the first argument unless the second beats it.\<close>

definition py_min :: "fnum \<Rightarrow> fnum \<Rightarrow> fnum" where
  "py_min a b = (if fless b a then b else a)"

definition py_max :: "fnum \<Rightarrow> fnum \<Rightarrow> fnum" where
  "py_max a b = (if fless a b then b else a)"

text \<open>
  \<open>predict\<close> returns its result or the error it raises, and with it the list of the feature
  rows on which the booster was evaluated.
\<close>

definition predict ::
  "ArrhythmiaPredictor \<Rightarrow> HRVFeatures \<Rightarrow> (InferenceError + fnum) \<times> fnum list list" where
  "predict p features =
     (case model p of
        None \<Rightarrow> (Inl ModelNotLoaded, [])
      | Some booster \<Rightarrow>
          if \<not> HRVFeatures.is_valid features
          then (Inl (InvalidFeatures (invalid_domains features)), [])
          else
            let feature_array = to_array features;
                feature_count = length (feature_names p)
            in if length feature_array \<noteq> feature_count
               then (Inl (UnexpectedPredictionError
                            (FeatureCountMismatch feature_count (length feature_array))), [])
               else if \<not> list_all isfinite feature_array
               then
                 let nan_indices =
                       filter (\<lambda>i. \<not> isfinite (feature_array ! i)) [0 ..< length feature_array];
                     nan_features = map (\<lambda>i. feature_names p ! i) nan_indices
                 in (Inl (UnexpectedPredictionError (InvalidValues nan_features)), [])
               else
                 case booster feature_array (feature_names p) of
                   RaisedXGBoostError \<Rightarrow> (Inl XGBoostPredictionError, [feature_array])
                 | RaisedOther \<Rightarrow>
                     (Inl (UnexpectedPredictionError OtherException), [feature_array])
                 | Predicted probability \<Rightarrow>
                     (Inr (py_max (Fin 0) (py_min (Fin 1) probability)), [feature_array]))"

text \<open>
  Features with a valid time domain, an invalid frequency domain and finite values, and a
  loaded predictor whose booster returns a constant, used to instantiate statements.
\<close>

definition degraded_features :: HRVFeatures where
  "degraded_features =
     \<lparr>time_domain =
        \<lparr>mean_rr = Fin 800, sdnn = Fin 40, rmssd = Fin 30, pnn50 = Fin 10, pnn20 = Fin 35,
         mean_hr = Fin 75, std_hr = Fin 4, cv_rr = Fin 5, num_intervals = 75, is_valid = True\<rparr>,
      frequency_domain =
        \<lparr>lf_power = Fin (- 1), hf_power = Fin 2, lf_hf_ratio = Fin (- 1 / 2),
         total_power = Fin 1, lf_nu = Fin (- 100), hf_nu = Fin 200, num_intervals = 75,
         is_valid = False\<rparr>,
      nonlinear = \<lparr>sample_entropy = Fin 1, num_intervals = 75, is_valid = True\<rparr>,
      num_intervals = 75, is_valid = True, invalid_domains = [''frequency_domain'']\<rparr>"

definition constant_predictor :: ArrhythmiaPredictor where
  "constant_predictor =
     \<lparr>model = Some (\<lambda>row names. Predicted (Fin 0.25)), feature_names = FEATURE_NAMES\<rparr>"


section \<open>Arithmetic without rounding\<close>

text \<open>
  The arithmetic of IEEE 754 with the rounding left out: a finite result is the exact real
  result, and the special values behave as the standard says. It is the instance
  \<open>unrounded\<close> of the operations above. It agrees with numpy wherever the exact result of
  every operation is a \<open>float64\<close> value, as on whole numbers of milliseconds and on dyadic
  fractions; it serves only to evaluate the extractor on such inputs, and no statement about
  all inputs is made of it.
\<close>

fun fadd :: "fnum \<Rightarrow> fnum \<Rightarrow> fnum" where
  "fadd (Fin a) (Fin b) = Fin (a + b)"
| "fadd NaN _ = NaN"
| "fadd _ NaN = NaN"
| "fadd PInf NInf = NaN"
| "fadd NInf PInf = NaN"
| "fadd PInf _ = PInf"
| "fadd _ PInf = PInf"
| "fadd NInf _ = NInf"
| "fadd _ NInf = NInf"

definition fsub :: "fnum \<Rightarrow> fnum \<Rightarrow> fnum" where
  "fsub a b = fadd a (fneg b)"

fun fmul :: "fnum \<Rightarrow> fnum \<Rightarrow> fnum" where
  "fmul (Fin a) (Fin b) = Fin (a * b)"
| "fmul NaN _ = NaN"
| "fmul _ NaN = NaN"
| "fmul (Fin a) i = (if a = 0 then NaN else if 0 < a then i else fneg i)"
| "fmul i (Fin b) = (if b = 0 then NaN else if 0 < b then i else fneg i)"
| "fmul PInf i = i"
| "fmul NInf i = fneg i"

fun fdiv :: "fnum \<Rightarrow> fnum \<Rightarrow> fnum" where
  "fdiv (Fin a) (Fin b) =
     (if b \<noteq> 0 then Fin (a / b) else if a = 0 then NaN else if 0 < a then PInf else NInf)"
| "fdiv NaN _ = NaN"
| "fdiv _ NaN = NaN"
| "fdiv (Fin a) i = Fin 0"
| "fdiv i (Fin b) = (if 0 \<le> b then i else fneg i)"
| "fdiv i j = NaN"

fun fsqrt :: "fnum \<Rightarrow> fnum" where
  "fsqrt (Fin a) = (if a < 0 then NaN else Fin (sqrt a))"
| "fsqrt PInf = PInf"
| "fsqrt NInf = NaN"
| "fsqrt NaN = NaN"

fun flog :: "fnum \<Rightarrow> fnum" where
  "flog (Fin a) = (if 0 < a then Fin (ln a) else if a = 0 then NInf else NaN)"
| "flog PInf = PInf"
| "flog NInf = NaN"
| "flog NaN = NaN"

definition exact_sum :: "fnum list \<Rightarrow> fnum" where
  "exact_sum xs = foldl fadd (Fin 0) xs"

definition exact_mean :: "fnum list \<Rightarrow> fnum" where
  "exact_mean xs = fdiv (exact_sum xs) (Fin (real (length xs)))"

definition exact_std_ddof1 :: "fnum list \<Rightarrow> fnum" where
  "exact_std_ddof1 xs =
     (let arrmean = exact_mean xs;
          x = map (\<lambda>a. fsub a arrmean) xs;
          ret = exact_sum (map (\<lambda>a. fmul a a) x);
          rcount = max (int (length xs) - 1) 0
      in fsqrt (fdiv ret (Fin (real_of_int rcount))))"

fun exact_trapz :: "fnum list \<Rightarrow> fnum list \<Rightarrow> fnum" where
  "exact_trapz (y0 # y1 # ys) (x0 # x1 # xs) =
     fadd (fdiv (fmul (fsub x1 x0) (fadd y1 y0)) (Fin 2)) (exact_trapz (y1 # ys) (x1 # xs))"
| "exact_trapz _ _ = Fin 0"

definition exact_linspace0 :: "fnum \<Rightarrow> int \<Rightarrow> fnum list option" where
  "exact_linspace0 stop num =
     (if num < 0 then None
      else if num = 1 then Some [Fin 0]
      else Some (map (\<lambda>i. fmul (Fin (real i)) (fdiv stop (Fin (real_of_int (num - 1)))))
                   [0 ..< nat num]))"

definition unrounded :: numpy where
  "unrounded =
     \<lparr>np_add = fadd, np_sub = fsub, np_mul = fmul, np_div = fdiv, np_pow2 = (\<lambda>a. fmul a a),
      np_sqrt = fsqrt, np_log = flog, np_mean = exact_mean, np_std_ddof1 = exact_std_ddof1,
      np_trapz = exact_trapz, np_linspace0 = exact_linspace0\<rparr>"

text \<open>The arithmetic mean and the sample standard deviation of real numbers.\<close>

definition ref_mean :: "real list \<Rightarrow> real" where
  "ref_mean xs = sum_list xs / real (length xs)"

definition ref_sample_std :: "real list \<Rightarrow> real" where
  "ref_sample_std xs =
     sqrt ((\<Sum>x\<leftarrow>xs. (x - ref_mean xs)\<^sup>2) / (real (length xs) - 1))"

text \<open>
  A scipy whose interpolation is the constant 1000 and whose spectral estimate is the given
  bins.
\<close>

definition fixed_scipy :: "real list \<Rightarrow> real list \<Rightarrow> scipy" where
  "fixed_scipy freqs ys =
     \<lparr>interp1d_cubic = (\<lambda>x y. Some (\<lambda>t. Fin 1000)),
      welch = (\<lambda>x fs nperseg noverlap. Some (freqs, map Fin ys))\<rparr>"

section \<open>Reference definitions of the frequency domain\<close>

text \<open>
  The grid as the specification words it: the points \<open>k / fs\<close>, \<open>k = 0, 1, \<dots>\<close>, of the
  half-open interval from 0 to \<open>total_duration\<close>.
\<close>

definition ref_uniform_grid :: "real \<Rightarrow> real \<Rightarrow> real list" where
  "ref_uniform_grid fs total_duration =
     map (\<lambda>k. real k / fs) [0 ..< nat \<lceil>total_duration * fs\<rceil>]"

section \<open>Reference definitions of the sample entropy\<close>

text \<open>
  The number of pairs \<open>i < j\<close> among the first \<open>cnt\<close> starting offsets whose templates of
  length \<open>L\<close> are within Chebyshev distance \<open>r\<close>: the absolute difference, as \<open>float64\<close>
  computes it, is at most \<open>r\<close> at every position \<open>k < L\<close>, that is, their maximum is.
\<close>

definition ref_match_count :: "numpy \<Rightarrow> real list \<Rightarrow> nat \<Rightarrow> nat \<Rightarrow> fnum \<Rightarrow> nat" where
  "ref_match_count np x L cnt r =
     card {(i, j). i < j \<and> j < cnt
             \<and> (\<forall>k<L. fle (fabs (np_sub np (Fin (x ! (i + k))) (Fin (x ! (j + k))))) r)}"

text \<open>
  The sample entropy for a given number of templates of each length: 0 for a zero tolerance,
  undefined when a count is 0, and \<open>- ln (A / B)\<close> otherwise.
\<close>

definition ref_sample_entropy ::
  "numpy \<Rightarrow> (nat \<Rightarrow> nat) \<Rightarrow> real list \<Rightarrow> nat \<Rightarrow> real \<Rightarrow> fnum" where
  "ref_sample_entropy np offsets x m r_factor =
     (let r = np_mul np (Fin r_factor) (np_std_ddof1 np (map Fin x));
          B = ref_match_count np x m (offsets m) r;
          A = ref_match_count np x (m + 1) (offsets (m + 1)) r
      in if r = Fin 0 then Fin 0
         else if A = 0 \<or> B = 0 then NaN
         else fneg (np_log np (np_div np (Fin (real A)) (Fin (real B)))))"

text \<open>
  The specification builds a template at each valid starting offset: a template of length
  \<open>L\<close> fits at the offsets \<open>0, \<dots>, N - L\<close>, which are \<open>N + 1 - L\<close> offsets.
\<close>

definition offsets_all_valid :: "nat \<Rightarrow> nat \<Rightarrow> nat" where
  "offsets_all_valid N L = N + 1 - L"

text \<open>\<open>_count_matches\<close> builds its templates at the offsets of \<open>range(N - m)\<close>.\<close>

definition offsets_range :: "nat \<Rightarrow> nat \<Rightarrow> nat" where
  "offsets_range N L = N - L"

text \<open>The pairs \<open>i < j\<close> of positions of a list whose elements are related.\<close>

definition related_pairs :: "('a \<Rightarrow> 'a \<Rightarrow> bool) \<Rightarrow> 'a list \<Rightarrow> (nat \<times> nat) set" where
  "related_pairs Q ts = {(i, j). i < j \<and> j < length ts \<and> Q (ts ! i) (ts ! j)}"

text \<open>Two templates are close when every absolute difference is at most \<open>r\<close>.\<close>

definition close_templates :: "numpy \<Rightarrow> fnum \<Rightarrow> real list \<Rightarrow> real list \<Rightarrow> bool" where
  "close_templates np r a b \<longleftrightarrow>
     list_all (\<lambda>d. fle d r) (map2 (\<lambda>x y. fabs (np_sub np (Fin x) (Fin y))) a b)"

text \<open>Thirty intervals used to compare the two choices of offsets.\<close>

definition entropy_example :: "real list" where
  "entropy_example =
     [850, 790, 820, 830, 770, 770, 840, 760, 790, 860, 770, 860, 840, 800, 840,
      810, 830, 780, 750, 840, 850, 750, 860, 810, 740, 860, 820, 810, 740, 860]"

text \<open>Thirty intervals with matches at both template lengths.\<close>

definition entropy_example_regular :: "real list" where
  "entropy_example_regular =
     [780, 790, 800, 770, 790, 820, 780, 790, 820, 800, 840, 770, 820, 820, 790,
      810, 790, 820, 820, 810, 810, 810, 810, 760, 780, 800, 810, 830, 790, 770]"

section \<open>Properties of the arithmetic that statements assume\<close>

text \<open>
  For counts \<open>0 < A \<le> B\<close> the quotient \<open>A / B\<close> is at most 1 and its logarithm is a finite
  value that is not positive.
\<close>

definition log_of_ratio_not_positive :: "numpy \<Rightarrow> bool" where
  "log_of_ratio_not_positive np \<longleftrightarrow>
     (\<forall>A B :: nat. 0 < A \<and> A \<le> B \<longrightarrow>
        (\<exists>l. np_log np (np_div np (Fin (real A)) (Fin (real B))) = Fin l \<and> l \<le> 0))"

text \<open>
  The two band powers of the spectral estimate that the extractor obtains for \<open>rr_ms\<close> are
  finite and not negative, as they are for the density of Welch's method, which is not
  negative, over ascending frequencies.
\<close>

definition spectral_power_not_negative ::
  "numpy \<Rightarrow> extractor_config \<Rightarrow> scipy \<Rightarrow> real list \<Rightarrow> bool" where
  "spectral_power_not_negative np c lib rr_ms \<longleftrightarrow>
     (\<forall>rr_interp t_interp freqs psd.
        interpolate_rr np c lib rr_ms (time_axis np rr_ms) = Inr (rr_interp, t_interp)
        \<and> compute_psd c lib rr_interp = Inr (freqs, psd) \<longrightarrow>
        (\<exists>lf hf. band_power np freqs psd LF_BAND = Fin lf \<and> 0 \<le> lf
                \<and> band_power np freqs psd HF_BAND = Fin hf \<and> 0 \<le> hf))"

section \<open>Validator: the value check\<close>

lemma values_loop_Cons:
  "values_loop c (x # xs) (cl, ic, iv) =
     (if in_range c x then values_loop c xs (cl @ [x], ic, iv)
      else values_loop c xs (cl, ic + 1, if length iv < 5 then iv @ [x] else iv))"
  by (simp add: in_range_def)

lemma values_loop_acc:
  "values_loop c xs (cl, ic, iv) =
     (cl @ kept c xs, ic + length (dropped c xs),
      iv @ take (5 - length iv) (dropped c xs))"
proof (induction xs arbitrary: cl ic iv)
  case Nil
  then show ?case by (simp add: kept_def dropped_def)
next
  case (Cons x xs)
  show ?case
  proof (cases "in_range c x")
    case True
    then show ?thesis
      unfolding values_loop_Cons Cons.IH by (simp add: kept_def dropped_def)
  next
    case False
    show ?thesis
    proof (cases "length iv < 5")
      case True
      then have "5 - length iv = Suc (5 - length (iv @ [x]))" by simp
      then show ?thesis
        unfolding values_loop_Cons Cons.IH using False True
        by (simp add: kept_def dropped_def)
    next
      case ge: False
      then show ?thesis
        unfolding values_loop_Cons Cons.IH using False
        by (simp add: kept_def dropped_def)
    qed
  qed
qed

lemma values_loop_init:
  "values_loop c xs ([], 0, []) = (kept c xs, length (dropped c xs), take 5 (dropped c xs))"
  by (simp add: values_loop_acc)

lemma half_real: "(real n > real m * 0.5) = (m < 2 * n)"
proof -
  have "(real n > real m * 0.5) = (real m < real (2 * n))" by (simp add: field_simps)
  also have "\<dots> = (m < 2 * n)" by (rule of_nat_less_iff)
  finally show ?thesis .
qed

lemma validate_values_eq:
  "validate_values c xs =
     (if length xs < 2 * length (dropped c xs) then
        reject ''INVALID_RR_VALUES''
          [(''invalid_count'', DInt (int (length (dropped c xs)))),
           (''total_count'', DInt (int (length xs))),
           (''valid_range_ms'', DIntList [min_rr_value_ms c, max_rr_value_ms c]),
           (''sample_invalid_values'', DIntList (take 5 (dropped c xs)))]
      else accept (Some (kept c xs)) None)"
  unfolding validate_values_def values_loop_init by (simp only: half_real prod.case)

lemma kept_dropped_length: "length (kept c xs) + length (dropped c xs) = length xs"
  unfolding kept_def dropped_def by (rule sum_length_filter_compl)

section \<open>Validator: the order of the checks\<close>



lemma validate_count_ok:
  "\<not> int (length xs) < min_rr_count c \<Longrightarrow> \<not> int (length xs) > max_rr_count c \<Longrightarrow>
   validate_count c xs = accept None None"
  by (simp add: validate_count_def)

lemma validate_after_count:
  assumes "\<not> int (length xs) < min_rr_count c" "\<not> int (length xs) > max_rr_count c"
  shows "validate c xs s e =
     (if length xs < 2 * length (dropped c xs) then Inr (validate_values c xs)
      else if int (length (kept c xs)) < min_rr_count c then
        Inr (reject ''INSUFFICIENT_VALID_DATA''
               [(''original_count'', DInt (int (length xs))),
                (''valid_count'', DInt (int (length (kept c xs)))),
                (''minimum_required'', DInt (min_rr_count c))])
      else
        case validate_window c s e of
          Inl ex \<Rightarrow> Inl ex
        | Inr window_result \<Rightarrow>
            if \<not> ValidationResult.is_valid window_result then Inr window_result
            else Inr (accept (Some (kept c xs)) (window_duration_s window_result)))"
  unfolding validate_def validate_count_ok [OF assms] Let_def
  by (simp add: validate_values_eq accept_def reject_def)


lemma validate_window_code:
  "validate_window c s e = Inr w \<Longrightarrow> error_code w \<noteq> Some ''INVALID_RR_VALUES''"
  unfolding validate_window_def if_cancel
  by (auto simp: Let_def reject_def accept_def split: sum.splits if_splits)






lemma validate_rejects_values_iff:
  assumes "min_rr_count c \<le> int (length xs)" "int (length xs) \<le> max_rr_count c"
  shows "(\<exists>res. validate c xs s e = Inr res \<and> error_code res = Some ''INVALID_RR_VALUES'')
         \<longleftrightarrow> length xs < 2 * length (dropped c xs)"
proof (cases "length xs < 2 * length (dropped c xs)")
  case True
  from assms have "\<not> int (length xs) < min_rr_count c" "\<not> int (length xs) > max_rr_count c"
    by simp_all
  from validate_after_count [OF this] True
  have "validate c xs s e = Inr (validate_values c xs)" by simp
  moreover from True have "error_code (validate_values c xs) = Some ''INVALID_RR_VALUES''"
    by (simp add: validate_values_eq reject_def)
  ultimately show ?thesis using True by simp
next
  case False
  from assms have "\<not> int (length xs) < min_rr_count c" "\<not> int (length xs) > max_rr_count c"
    by simp_all
  note v = validate_after_count [OF this, of s e]
  have "\<not> (\<exists>res. validate c xs s e = Inr res \<and> error_code res = Some ''INVALID_RR_VALUES'')"
  proof (cases "int (length (kept c xs)) < min_rr_count c")
    case True
    with v False show ?thesis by (simp add: reject_def)
  next
    case enough: False
    show ?thesis
    proof (cases "validate_window c s e")
      case (Inl ex)
      with v False enough show ?thesis by simp
    next
      case (Inr w)
      from validate_window_code [OF Inr] v False enough Inr show ?thesis
        by (auto simp: accept_def)
    qed
  qed
  with False show ?thesis by simp
qed

lemma default_validator_simps [simp]:
  "min_rr_count default_validator = 40" "max_rr_count default_validator = 200"
  "min_rr_value_ms default_validator = 200" "max_rr_value_ms default_validator = 2000"
  "min_window_duration_s default_validator = 30" "max_window_duration_s default_validator = 120"
  by (simp_all add: default_validator_def)

text \<open>
  C3. The value check keeps exactly the elements within the inclusive bounds, in their order
  (a subsequence of the input, never a clamped value); it rejects with \<open>INVALID_RR_VALUES\<close>
  exactly when the dropped elements are strictly more than half of the input, and then the
  details carry the first \<open>min 5 dropped\<close> offending values. On the sequence
  200, 500, 800, 1000, 2500, 900, 100, 750 with bounds 200 and 2000 it drops 2500 and 100 and
  succeeds with the six others in order. For a sequence that passes the count check,
  \<open>validate\<close> rejects with \<open>INVALID_RR_VALUES\<close> exactly in that case.
\<close>

theorem validate_values_spec:
  "(ValidationResult.is_valid (validate_values c xs) \<longleftrightarrow> \<not> 2 * length (dropped c xs) > length xs)
   \<and> (error_code (validate_values c xs) =
        (if 2 * length (dropped c xs) > length xs then Some ''INVALID_RR_VALUES'' else None))
   \<and> (cleaned_rr_intervals (validate_values c xs) =
        (if 2 * length (dropped c xs) > length xs then None
         else Some (filter (\<lambda>rr. min_rr_value_ms c \<le> rr \<and> rr \<le> max_rr_value_ms c) xs)))
   \<and> (error_details (validate_values c xs) =
        (if 2 * length (dropped c xs) > length xs then
           Some [(''invalid_count'', DInt (int (length (dropped c xs)))),
                 (''total_count'', DInt (int (length xs))),
                 (''valid_range_ms'', DIntList [min_rr_value_ms c, max_rr_value_ms c]),
                 (''sample_invalid_values'',
                    DIntList (take (min 5 (length (dropped c xs))) (dropped c xs)))]
         else None))
   \<and> subseq (kept c xs) xs
   \<and> length (dropped c xs) = length xs - length (kept c xs)
   \<and> dropped default_validator [200, 500, 800, 1000, 2500, 900, 100, 750] = [2500, 100]
   \<and> validate_values default_validator [200, 500, 800, 1000, 2500, 900, 100, 750] =
       accept (Some [200, 500, 800, 1000, 900, 750]) None
   \<and> (min_rr_count c \<le> int (length xs) \<and> int (length xs) \<le> max_rr_count c \<longrightarrow>
        ((\<exists>res. validate c xs s e = Inr res \<and> error_code res = Some ''INVALID_RR_VALUES'')
         \<longleftrightarrow> 2 * length (dropped c xs) > length xs))"
proof -
  have tk: "take (min 5 (length (dropped c xs))) (dropped c xs) = take 5 (dropped c xs)"
    by (simp add: min_def)
  have k: "kept c xs = filter (\<lambda>rr. min_rr_value_ms c \<le> rr \<and> rr \<le> max_rr_value_ms c) xs"
    by (simp add: kept_def in_range_def [abs_def])
  have a: "ValidationResult.is_valid (validate_values c xs) \<longleftrightarrow> \<not> 2 * length (dropped c xs) > length xs"
    by (simp add: validate_values_eq reject_def accept_def)
  have b: "error_code (validate_values c xs) =
        (if 2 * length (dropped c xs) > length xs then Some ''INVALID_RR_VALUES'' else None)"
    by (simp add: validate_values_eq reject_def accept_def)
  have d: "cleaned_rr_intervals (validate_values c xs) =
        (if 2 * length (dropped c xs) > length xs then None
         else Some (filter (\<lambda>rr. min_rr_value_ms c \<le> rr \<and> rr \<le> max_rr_value_ms c) xs))"
    by (simp add: validate_values_eq reject_def accept_def k)
  have e: "error_details (validate_values c xs) =
        (if 2 * length (dropped c xs) > length xs then
           Some [(''invalid_count'', DInt (int (length (dropped c xs)))),
                 (''total_count'', DInt (int (length xs))),
                 (''valid_range_ms'', DIntList [min_rr_value_ms c, max_rr_value_ms c]),
                 (''sample_invalid_values'',
                    DIntList (take (min 5 (length (dropped c xs))) (dropped c xs)))]
         else None)"
    unfolding tk by (simp add: validate_values_eq reject_def accept_def)
  have f: "subseq (kept c xs) xs"
    by (simp add: kept_def)
  have g: "length (dropped c xs) = length xs - length (kept c xs)"
    using kept_dropped_length [of c xs] by simp
  have h: "dropped default_validator [200, 500, 800, 1000, 2500, 900, 100, 750] = [2500, 100]"
    by (simp add: dropped_def in_range_def default_validator_def)
  have i: "validate_values default_validator [200, 500, 800, 1000, 2500, 900, 100, 750] =
       accept (Some [200, 500, 800, 1000, 900, 750]) None"
    unfolding validate_values_eq h
    by (simp add: kept_def in_range_def default_validator_def)
  have j: "min_rr_count c \<le> int (length xs) \<and> int (length xs) \<le> max_rr_count c \<longrightarrow>
        ((\<exists>res. validate c xs s e = Inr res \<and> error_code res = Some ''INVALID_RR_VALUES'')
         \<longleftrightarrow> 2 * length (dropped c xs) > length xs)"
    using validate_rejects_values_iff [of c xs s e] by blast
  from a b d e f g h i j show ?thesis by blast
qed

theorem validate_values_spec_witness:
  "(\<exists>res. validate default_validator (replicate 40 100) \<lparr>wall_us = 0, tzinfo = None, utcoffset_us = None\<rparr>
             \<lparr>wall_us = 60000000, tzinfo = None, utcoffset_us = None\<rparr> = Inr res
          \<and> error_code res = Some ''INVALID_RR_VALUES'')
   \<and> 2 * length (dropped default_validator (replicate 40 100)) > length (replicate 40 (100::int))
   \<and> \<not> (\<exists>res. validate default_validator (replicate 40 800) \<lparr>wall_us = 0, tzinfo = None, utcoffset_us = None\<rparr>
               \<lparr>wall_us = 60000000, tzinfo = None, utcoffset_us = None\<rparr> = Inr res
            \<and> error_code res = Some ''INVALID_RR_VALUES'')
   \<and> \<not> 2 * length (dropped default_validator (replicate 40 800)) > length (replicate 40 (800::int))"
proof -
  let ?s = "\<lparr>wall_us = 0, tzinfo = None, utcoffset_us = None\<rparr>"
  let ?e = "\<lparr>wall_us = 60000000, tzinfo = None, utcoffset_us = None\<rparr>"
  have d1: "2 * length (dropped default_validator (replicate 40 100)) > length (replicate 40 (100::int))"
    by (simp add: dropped_def in_range_def)
  have d2: "\<not> 2 * length (dropped default_validator (replicate 40 800)) > length (replicate 40 (800::int))"
    by (simp add: dropped_def in_range_def)
  have c1: "min_rr_count default_validator \<le> int (length (replicate 40 (100::int)))
            \<and> int (length (replicate 40 (100::int))) \<le> max_rr_count default_validator"
    by simp
  have c2: "min_rr_count default_validator \<le> int (length (replicate 40 (800::int)))
            \<and> int (length (replicate 40 (800::int))) \<le> max_rr_count default_validator"
    by simp
  have 1: "\<exists>res. validate default_validator (replicate 40 100) ?s ?e = Inr res
          \<and> error_code res = Some ''INVALID_RR_VALUES''"
    using validate_values_spec [of default_validator "replicate 40 100" ?s ?e] c1 d1 by blast
  have 2: "\<not> (\<exists>res. validate default_validator (replicate 40 800) ?s ?e = Inr res
            \<and> error_code res = Some ''INVALID_RR_VALUES'')"
    using validate_values_spec [of default_validator "replicate 40 800" ?s ?e] c2 d2 by blast
  from 1 d1 2 d2 show ?thesis by blast
qed




section \<open>Feature vector order\<close>

lemma to_dict_eq:
  "to_dict f =
     [(''mean_rr'', mean_rr (time_domain f)), (''sdnn'', sdnn (time_domain f)),
      (''rmssd'', rmssd (time_domain f)), (''pnn50'', pnn50 (time_domain f)),
      (''pnn20'', pnn20 (time_domain f)), (''mean_hr'', mean_hr (time_domain f)),
      (''std_hr'', std_hr (time_domain f)), (''cv_rr'', cv_rr (time_domain f)),
      (''lf_power'', lf_power (frequency_domain f)), (''hf_power'', hf_power (frequency_domain f)),
      (''lf_hf_ratio'', lf_hf_ratio (frequency_domain f)),
      (''total_power'', total_power (frequency_domain f)),
      (''lf_nu'', lf_nu (frequency_domain f)), (''hf_nu'', hf_nu (frequency_domain f)),
      (''sample_entropy'', sample_entropy (nonlinear f))]"
  by (simp add: to_dict_def td_to_dict_def fd_to_dict_def nl_to_dict_def)

lemma to_array_eq:
  "to_array f =
     [mean_rr (time_domain f), sdnn (time_domain f), rmssd (time_domain f),
      pnn50 (time_domain f), pnn20 (time_domain f), mean_hr (time_domain f),
      std_hr (time_domain f), cv_rr (time_domain f),
      lf_power (frequency_domain f), hf_power (frequency_domain f),
      lf_hf_ratio (frequency_domain f), total_power (frequency_domain f),
      lf_nu (frequency_domain f), hf_nu (frequency_domain f),
      sample_entropy (nonlinear f)]"
  by (simp add: to_array_def td_to_array_def fd_to_array_def nl_to_array_def)

lemma all_less_15:
  "(\<forall>i<15. P (i::nat)) =
     (P 0 \<and> P 1 \<and> P 2 \<and> P 3 \<and> P 4 \<and> P 5 \<and> P 6 \<and> P 7 \<and> P 8 \<and> P 9 \<and> P 10 \<and> P 11 \<and> P 12
      \<and> P 13 \<and> P 14)"
  by (simp add: eval_nat_numeral All_less_Suc conj_ac)

text \<open>
  C2. \<open>to_array\<close> has 15 elements: the eight time-domain values, the six frequency-domain
  values and the sample entropy, in this order; the keys of \<open>to_dict\<close> in their order are
  \<open>FEATURE_NAMES\<close>, its values in their order are \<open>to_array\<close>, and looking the i-th name up
  in \<open>to_dict\<close> gives the i-th element of \<open>to_array\<close>.
\<close>

theorem to_array_order:
  "length (to_array f) = 15
   \<and> to_array f =
       [mean_rr (time_domain f), sdnn (time_domain f), rmssd (time_domain f),
        pnn50 (time_domain f), pnn20 (time_domain f), mean_hr (time_domain f),
        std_hr (time_domain f), cv_rr (time_domain f),
        lf_power (frequency_domain f), hf_power (frequency_domain f),
        lf_hf_ratio (frequency_domain f), total_power (frequency_domain f),
        lf_nu (frequency_domain f), hf_nu (frequency_domain f),
        sample_entropy (nonlinear f)]
   \<and> map fst (to_dict f) = FEATURE_NAMES
   \<and> map snd (to_dict f) = to_array f
   \<and> (\<forall>i<15. dict_get (to_dict f) (FEATURE_NAMES ! i) = Some (to_array f ! i))"
proof -
  have a: "length (to_array f) = 15" by (simp add: to_array_eq)
  have b: "map fst (to_dict f) = FEATURE_NAMES" by (simp add: to_dict_eq FEATURE_NAMES_def)
  have c: "map snd (to_dict f) = to_array f" by (simp add: to_dict_eq to_array_eq)
  have d: "\<forall>i<15. dict_get (to_dict f) (FEATURE_NAMES ! i) = Some (to_array f ! i)"
    unfolding all_less_15 by (simp add: to_dict_eq to_array_eq FEATURE_NAMES_def)
  from a b c d to_array_eq [of f] show ?thesis by blast
qed


theorem to_array_order_witness:
  "dict_get (to_dict example_features) ''lf_power'' = Some (Fin 500)
   \<and> to_array example_features ! 8 = Fin 500
   \<and> FEATURE_NAMES ! 8 = ''lf_power''"
proof -
  have "dict_get (to_dict example_features) (FEATURE_NAMES ! 8) = Some (to_array example_features ! 8)"
    using to_array_order [of example_features] by simp
  moreover have "to_array example_features ! 8 = Fin 500"
    using to_array_order [of example_features] by (simp add: example_features_def)
  moreover have "FEATURE_NAMES ! 8 = ''lf_power''"
    by (simp add: FEATURE_NAMES_def)
  ultimately show ?thesis by simp
qed

section \<open>Aggregator: overall validity\<close>

text \<open>
  C1. The overall \<open>is_valid\<close> of the features that \<open>extract\<close> returns is the \<open>is_valid\<close> of
  their time-domain part, whatever the two other domains are, and \<open>invalid_domains\<close> holds
  exactly the names of the domains whose extractor returned \<open>is_valid = False\<close>.
\<close>

theorem extract_validity:
  "HRVFeatures.is_valid (hrv_extract np c lib rr) =
     TimeDomainFeatures.is_valid (time_domain (hrv_extract np c lib rr))
   \<and> time_domain (hrv_extract np c lib rr) = extract_time_domain np c rr
   \<and> frequency_domain (hrv_extract np c lib rr) = extract_frequency_domain np c lib rr
   \<and> nonlinear (hrv_extract np c lib rr) = extract_nonlinear np c rr
   \<and> HRVFeatures.num_intervals (hrv_extract np c lib rr) = length rr
   \<and> (''time_domain'' \<in> set (invalid_domains (hrv_extract np c lib rr)))
       = (\<not> TimeDomainFeatures.is_valid (extract_time_domain np c rr))
   \<and> (''frequency_domain'' \<in> set (invalid_domains (hrv_extract np c lib rr)))
       = (\<not> FrequencyDomainFeatures.is_valid (extract_frequency_domain np c lib rr))
   \<and> (''nonlinear'' \<in> set (invalid_domains (hrv_extract np c lib rr)))
       = (\<not> NonlinearFeatures.is_valid (extract_nonlinear np c rr))
   \<and> set (invalid_domains (hrv_extract np c lib rr))
       \<subseteq> {''time_domain'', ''frequency_domain'', ''nonlinear''}
   \<and> distinct (invalid_domains (hrv_extract np c lib rr))"
  by (simp add: hrv_extract_def Let_def)

section \<open>Predictor: rejection of invalid features\<close>

text \<open>
  C10. For features whose overall \<open>is_valid\<close> is false, \<open>predict\<close> raises an
  \<open>InferenceError\<close> and the booster is not evaluated. For features whose overall flag is true
  the outcome does not depend on \<open>invalid_domains\<close>: inference goes on to the feature count
  check, the finiteness check and the booster.
\<close>

theorem predict_invalid_features:
  "(\<not> HRVFeatures.is_valid f \<longrightarrow>
      snd (predict p f) = []
      \<and> fst (predict p f) =
          Inl (if model p = None then ModelNotLoaded else InvalidFeatures (invalid_domains f)))
   \<and> (HRVFeatures.is_valid f \<and> model p = Some booster \<longrightarrow>
        predict p f = predict p (f\<lparr>invalid_domains := ds\<rparr>)
        \<and> predict p f =
            (if length (to_array f) \<noteq> length (feature_names p)
             then (Inl (UnexpectedPredictionError
                          (FeatureCountMismatch (length (feature_names p)) (length (to_array f)))), [])
             else if \<not> list_all isfinite (to_array f)
             then (Inl (UnexpectedPredictionError
                          (InvalidValues
                             (map (\<lambda>i. feature_names p ! i)
                                (filter (\<lambda>i. \<not> isfinite (to_array f ! i))
                                   [0 ..< length (to_array f)])))), [])
             else case booster (to_array f) (feature_names p) of
                    RaisedXGBoostError \<Rightarrow> (Inl XGBoostPredictionError, [to_array f])
                  | RaisedOther \<Rightarrow> (Inl (UnexpectedPredictionError OtherException), [to_array f])
                  | Predicted v \<Rightarrow> (Inr (py_max (Fin 0) (py_min (Fin 1) v)), [to_array f])))"
proof (intro conjI impI)
  assume "\<not> HRVFeatures.is_valid f"
  then show "snd (predict p f) = []"
    by (simp add: predict_def split: option.splits)
next
  assume "\<not> HRVFeatures.is_valid f"
  then show "fst (predict p f) =
          Inl (if model p = None then ModelNotLoaded else InvalidFeatures (invalid_domains f))"
    by (simp add: predict_def split: option.splits)
next
  assume a: "HRVFeatures.is_valid f \<and> model p = Some booster"
  have "to_array (f\<lparr>invalid_domains := ds\<rparr>) = to_array f"
    by (simp add: to_array_def)
  with a show "predict p f = predict p (f\<lparr>invalid_domains := ds\<rparr>)"
    by (simp add: predict_def)
next
  assume a: "HRVFeatures.is_valid f \<and> model p = Some booster"
  then show "predict p f =
            (if length (to_array f) \<noteq> length (feature_names p)
             then (Inl (UnexpectedPredictionError
                          (FeatureCountMismatch (length (feature_names p)) (length (to_array f)))), [])
             else if \<not> list_all isfinite (to_array f)
             then (Inl (UnexpectedPredictionError
                          (InvalidValues
                             (map (\<lambda>i. feature_names p ! i)
                                (filter (\<lambda>i. \<not> isfinite (to_array f ! i))
                                   [0 ..< length (to_array f)])))), [])
             else case booster (to_array f) (feature_names p) of
                    RaisedXGBoostError \<Rightarrow> (Inl XGBoostPredictionError, [to_array f])
                  | RaisedOther \<Rightarrow> (Inl (UnexpectedPredictionError OtherException), [to_array f])
                  | Predicted v \<Rightarrow> (Inr (py_max (Fin 0) (py_min (Fin 1) v)), [to_array f]))"
    by (simp add: predict_def Let_def)
qed

lemma to_array_degraded:
  "to_array degraded_features =
     [Fin 800, Fin 40, Fin 30, Fin 10, Fin 35, Fin 75, Fin 4, Fin 5,
      Fin (- 1), Fin 2, Fin (- 1 / 2), Fin 1, Fin (- 100), Fin 200, Fin 1]"
  by (simp add: to_array_eq degraded_features_def)

theorem predict_invalid_features_witness:
  "predict constant_predictor (degraded_features\<lparr>is_valid := False\<rparr>) =
     (Inl (InvalidFeatures [''frequency_domain'']), [])
   \<and> predict constant_predictor degraded_features =
       (Inr (Fin 0.25), [to_array degraded_features])
   \<and> predict constant_predictor example_features =
       (Inl (UnexpectedPredictionError
               (InvalidValues [''hf_power'', ''lf_hf_ratio'', ''total_power'', ''lf_nu'', ''hf_nu''])), [])"
proof -
  have n: "\<not> HRVFeatures.is_valid (degraded_features\<lparr>is_valid := False\<rparr>)" by simp
  have v: "HRVFeatures.is_valid degraded_features" by (simp add: degraded_features_def)
  have m: "model constant_predictor = Some (\<lambda>row names. Predicted (Fin 0.25))"
    by (simp add: constant_predictor_def)
  have 1: "predict constant_predictor (degraded_features\<lparr>is_valid := False\<rparr>) =
     (Inl (InvalidFeatures [''frequency_domain'']), [])"
    using predict_invalid_features
            [of "degraded_features\<lparr>is_valid := False\<rparr>" constant_predictor] n m
    by (simp add: prod_eq_iff degraded_features_def)
  have 2: "predict constant_predictor degraded_features =
       (Inr (Fin 0.25), [to_array degraded_features])"
    using predict_invalid_features
            [of degraded_features constant_predictor "\<lambda>row names. Predicted (Fin 0.25)"] v m
    by (simp add: to_array_degraded constant_predictor_def FEATURE_NAMES_def py_min_def py_max_def)
  have ve: "HRVFeatures.is_valid example_features" by (simp add: example_features_def)
  have 3: "predict constant_predictor example_features =
       (Inl (UnexpectedPredictionError
               (InvalidValues [''hf_power'', ''lf_hf_ratio'', ''total_power'', ''lf_nu'', ''hf_nu''])), [])"
    using predict_invalid_features
            [of example_features constant_predictor "\<lambda>row names. Predicted (Fin 0.25)"] ve m
    by (simp add: to_array_eq example_features_def constant_predictor_def FEATURE_NAMES_def
          upt_conv_Cons_Cons eval_nat_numeral upt_rec)
  from 1 2 3 show ?thesis by simp
qed


section \<open>Nonlinear domain: the counting loops\<close>

lemma default_extractor_simps [simp]:
  "td_min_intervals default_extractor = 10" "fd_resample_rate default_extractor = 4"
  "fd_min_intervals default_extractor = 20" "nl_m default_extractor = 2"
  "nl_r_factor default_extractor = float_0_2" "nl_min_intervals default_extractor = 30"
  by (simp_all add: default_extractor_def)

lemma fle_fmax: "fle (fmax a b) r \<longleftrightarrow> fle a r \<and> fle b r"
  by (cases a; cases b; cases r) (auto simp: fmax_def fle_def)

lemma fle_fold_fmax: "fle (fold fmax ds d) r \<longleftrightarrow> fle d r \<and> list_all (\<lambda>d. fle d r) ds"
  by (induction ds arbitrary: d) (auto simp: fle_fmax)

lemma chebyshev_close:
  assumes "a \<noteq> []" "b \<noteq> []"
  shows "\<exists>d. chebyshev np a b = Inr d \<and> (fle d r \<longleftrightarrow> close_templates np r a b)"
proof -
  from assms obtain x xs y ys where a: "a = x # xs" and b: "b = y # ys"
    by (cases a; cases b) auto
  show ?thesis
    unfolding a b by (simp add: chebyshev_def np_max_def close_templates_def fle_fold_fmax)
qed

lemma chebyshev_empty: "chebyshev np [] b = Inl ValueError"
  by (simp add: chebyshev_def np_max_def)

lemma count_inner_filter:
  assumes "t \<noteq> []" "\<forall>u\<in>set rest. u \<noteq> []"
  shows "count_inner np t rest r c = Inr (c + length (filter (close_templates np r t) rest))"
  using assms(2)
proof (induction rest arbitrary: c)
  case Nil
  then show ?case by simp
next
  case (Cons u rest)
  then have u: "u \<noteq> []" by simp
  from chebyshev_close [OF assms(1) u, of np r]
  obtain d where d: "chebyshev np t u = Inr d" "fle d r \<longleftrightarrow> close_templates np r t u"
    by blast
  from Cons show ?case by (simp add: d)
qed

lemma finite_related_pairs: "finite (related_pairs Q ts)"
proof (rule finite_subset)
  show "related_pairs Q ts \<subseteq> {..<length ts} \<times> {..<length ts}"
    by (auto simp: related_pairs_def)
qed simp

lemma related_pairs_Cons:
  "related_pairs Q (t # rest) =
     (\<lambda>j. (0, Suc j)) ` {j. j < length rest \<and> Q t (rest ! j)}
     \<union> (\<lambda>(i, j). (Suc i, Suc j)) ` related_pairs Q rest"
proof (rule set_eqI)
  fix p :: "nat \<times> nat"
  obtain i j where p: "p = (i, j)" by (cases p)
  show "p \<in> related_pairs Q (t # rest) \<longleftrightarrow>
        p \<in> (\<lambda>j. (0, Suc j)) ` {j. j < length rest \<and> Q t (rest ! j)}
            \<union> (\<lambda>(i, j). (Suc i, Suc j)) ` related_pairs Q rest"
  proof (cases i)
    case 0
    show ?thesis
    proof (cases j)
      case z: 0
      with 0 p show ?thesis by (auto simp: related_pairs_def)
    next
      case (Suc j')
      with 0 p show ?thesis by (auto simp: related_pairs_def image_iff)
    qed
  next
    case si: (Suc i')
    show ?thesis
    proof (cases j)
      case 0
      with si p show ?thesis by (auto simp: related_pairs_def)
    next
      case (Suc j')
      with si p show ?thesis by (auto simp: related_pairs_def image_iff)
    qed
  qed
qed

lemma card_related_pairs_Cons:
  "card (related_pairs Q (t # rest)) = length (filter (Q t) rest) + card (related_pairs Q rest)"
proof -
  let ?A = "(\<lambda>j. (0::nat, Suc j)) ` {j. j < length rest \<and> Q t (rest ! j)}"
  let ?B = "(\<lambda>(i, j). (Suc i, Suc j)) ` related_pairs Q rest"
  have fa: "finite ?A" by simp
  have fb: "finite ?B" using finite_related_pairs by (rule finite_imageI)
  have dj: "?A \<inter> ?B = {}" by auto
  have ca: "card ?A = length (filter (Q t) rest)"
  proof -
    have "card ?A = card {j. j < length rest \<and> Q t (rest ! j)}"
      by (rule card_image) (simp add: inj_on_def)
    then show ?thesis by (simp add: length_filter_conv_card)
  qed
  have cb: "card ?B = card (related_pairs Q rest)"
    by (rule card_image) (auto simp: inj_on_def)
  show ?thesis
    unfolding related_pairs_Cons card_Un_disjoint [OF fa fb dj] ca cb ..
qed

lemma count_outer_card:
  assumes "\<forall>u\<in>set ts. u \<noteq> []"
  shows "count_outer np ts r c = Inr (c + card (related_pairs (close_templates np r) ts))"
  using assms
proof (induction ts arbitrary: c)
  case Nil
  then show ?case by (simp add: related_pairs_def)
next
  case (Cons t rest)
  then have t: "t \<noteq> []" and r: "\<forall>u\<in>set rest. u \<noteq> []" by simp_all
  show ?case
    unfolding count_outer.simps count_inner_filter [OF t r] card_related_pairs_Cons
    using Cons.IH [OF r] by simp
qed

lemma close_templates_nth:
  assumes "i + L \<le> length x" "j + L \<le> length x"
  shows "close_templates np r (take L (drop i x)) (take L (drop j x)) \<longleftrightarrow>
         (\<forall>k<L. fle (fabs (np_sub np (Fin (x ! (i + k))) (Fin (x ! (j + k))))) r)"
proof -
  let ?a = "take L (drop i x)" and ?b = "take L (drop j x)"
  let ?d = "\<lambda>u v. fabs (np_sub np (Fin u) (Fin v))"
  have la: "length ?a = L" and lb: "length ?b = L" using assms by simp_all
  have "map2 ?d ?a ?b = map (\<lambda>k. ?d (x ! (i + k)) (x ! (j + k))) [0 ..< L]"
  proof (rule nth_equalityI)
    show "length (map2 ?d ?a ?b) = length (map (\<lambda>k. ?d (x ! (i + k)) (x ! (j + k))) [0 ..< L])"
      using la lb by simp
  next
    fix k assume "k < length (map2 ?d ?a ?b)"
    then have k: "k < L" using la lb by simp
    then show "map2 ?d ?a ?b ! k = map (\<lambda>k. ?d (x ! (i + k)) (x ! (j + k))) [0 ..< L] ! k"
      using la lb assms by simp
  qed
  then show ?thesis by (auto simp: close_templates_def list_all_iff)
qed

lemma count_templates:
  assumes "1 \<le> L" "\<forall>i<cnt. i + L \<le> length x"
  shows "count_outer np (map (\<lambda>i. take L (drop i x)) [0 ..< cnt]) r 0 =
           Inr (ref_match_count np x L cnt r)"
proof -
  let ?ts = "map (\<lambda>i. take L (drop i x)) [0 ..< cnt]"
  have ne: "\<forall>u\<in>set ?ts. u \<noteq> []"
  proof
    fix u assume "u \<in> set ?ts"
    then obtain i where i: "i < cnt" "u = take L (drop i x)" by auto
    from assms(2) i(1) have "i + L \<le> length x" by blast
    with i(2) have "length u = L" by simp
    with assms(1) show "u \<noteq> []" by auto
  qed
  have "related_pairs (close_templates np r) ?ts =
        {(i, j). i < j \<and> j < cnt
           \<and> (\<forall>k<L. fle (fabs (np_sub np (Fin (x ! (i + k))) (Fin (x ! (j + k))))) r)}"
  proof (rule set_eqI)
    fix p :: "nat \<times> nat"
    obtain i j where p: "p = (i, j)" by (cases p)
    show "p \<in> related_pairs (close_templates np r) ?ts \<longleftrightarrow>
          p \<in> {(i, j). i < j \<and> j < cnt
                 \<and> (\<forall>k<L. fle (fabs (np_sub np (Fin (x ! (i + k))) (Fin (x ! (j + k))))) r)}"
    proof (cases "i < j \<and> j < cnt")
      case True
      then have "i + L \<le> length x" "j + L \<le> length x" using assms(2) by auto
      from close_templates_nth [OF this, of np r] True p show ?thesis
        by (simp add: related_pairs_def)
    next
      case False
      with p show ?thesis by (auto simp: related_pairs_def)
    qed
  qed
  then show ?thesis
    using count_outer_card [OF ne, of np r 0] by (simp add: ref_match_count_def)
qed

lemma count_matches_ref:
  assumes "1 \<le> L"
  shows "count_matches np x L r =
           Inr (ref_match_count np x L (offsets_range (length x) L) r)"
proof -
  have "\<forall>i<length x - L. i + L \<le> length x" by auto
  from count_templates [OF assms this, of np r] show ?thesis
    by (simp add: count_matches_def templates_def offsets_range_def)
qed

lemma sample_entropy_of_ref:
  assumes "1 \<le> m"
  shows "sample_entropy_of np x m r_factor =
           Inr (ref_sample_entropy np (offsets_range (length x)) x m r_factor)"
proof -
  have m1: "1 \<le> m + 1" by simp
  show ?thesis
    unfolding sample_entropy_of_def Let_def count_matches_ref [OF assms]
      count_matches_ref [OF m1] ref_sample_entropy_def
    by simp
qed

lemma extract_nonlinear_eq:
  assumes "\<not> int (length rr) < nl_min_intervals c"
    and "sample_entropy_of np rr (nl_m c) (nl_r_factor c) = Inr v"
  shows "extract_nonlinear np c rr =
     \<lparr>sample_entropy = v, num_intervals = length rr,
      is_valid = (isfinite v \<and> \<not> fless v (Fin 0))\<rparr>"
  using assms by (auto simp: extract_nonlinear_def Let_def validate_nonlinear_def)

lemma extract_nonlinear_raises:
  assumes "sample_entropy_of np rr (nl_m c) (nl_r_factor c) = Inl e"
  shows "extract_nonlinear np c rr = invalid_nonlinear (length rr)"
  using assms by (simp add: extract_nonlinear_def Let_def)

text \<open>A match of the longer templates is a match of the shorter ones.\<close>

lemma ref_match_count_mono:
  "ref_match_count np x (L + 1) (N - (L + 1)) r \<le> ref_match_count np x L (N - L) r"
proof -
  let ?S = "\<lambda>L cnt. {(i, j). i < j \<and> j < cnt
             \<and> (\<forall>k<L. fle (fabs (np_sub np (Fin (x ! (i + k))) (Fin (x ! (j + k))))) r)}"
  have fin: "finite (?S L (N - L))"
  proof (rule finite_subset)
    show "?S L (N - L) \<subseteq> {..<N - L} \<times> {..<N - L}" by auto
  qed simp
  have sub: "?S (L + 1) (N - (L + 1)) \<subseteq> ?S L (N - L)" by auto
  from card_mono [OF fin sub] show ?thesis by (simp add: ref_match_count_def)
qed

text \<open>With templates of length 0 the loops count nothing or raise.\<close>

lemma count_outer_empty_templates:
  assumes "count_outer np (replicate n []) r 0 = Inr B"
  shows "B = 0"
proof (cases n)
  case 0
  with assms show ?thesis by simp
next
  case (Suc k)
  show ?thesis
  proof (cases k)
    case 0
    with Suc assms show ?thesis by simp
  next
    case s: (Suc k')
    with Suc assms show ?thesis by (simp add: chebyshev_empty)
  qed
qed

lemma count_matches_zero_length:
  assumes "count_matches np x 0 r = Inr B"
  shows "B = 0"
proof -
  have "templates x 0 = replicate (length x) []"
    by (simp add: templates_def map_replicate_const)
  with assms show ?thesis
    using count_outer_empty_templates [of np "length x" r B] by (simp add: count_matches_def)
qed

text \<open>The standard deviation of the two examples, and the counts at their tolerances.\<close>

lemma foldl_fadd_Fin: "foldl fadd (Fin a) (map Fin xs) = Fin (a + sum_list xs)"
  by (induction xs arbitrary: a) (simp_all add: add.assoc)

lemma exact_sum_Fin: "exact_sum (map Fin xs) = Fin (sum_list xs)"
  by (simp add: exact_sum_def foldl_fadd_Fin)

lemma exact_mean_Fin: "xs \<noteq> [] \<Longrightarrow> exact_mean (map Fin xs) = Fin (ref_mean xs)"
  by (simp add: exact_mean_def exact_sum_Fin ref_mean_def)

lemma exact_std_Fin:
  assumes "2 \<le> length xs"
  shows "exact_std_ddof1 (map Fin xs) = Fin (ref_sample_std xs)"
proof -
  from assms have ne: "xs \<noteq> []" by auto
  have sq: "map (\<lambda>a. fmul a a) (map (\<lambda>a. fsub a (Fin (ref_mean xs))) (map Fin xs)) =
            map Fin (map (\<lambda>x. (x - ref_mean xs)\<^sup>2) xs)"
    by (simp add: fsub_def power2_eq_square)
  have rc: "real_of_int (max (int (length xs) - 1) 0) = real (length xs) - 1"
    using assms by simp
  have nn: "0 \<le> (\<Sum>x\<leftarrow>xs. (x - ref_mean xs)\<^sup>2) / (real (length xs) - 1)"
    using assms by (intro divide_nonneg_nonneg sum_list_nonneg) auto
  have pos: "real (length xs) - 1 \<noteq> 0" using assms by simp
  have "exact_std_ddof1 (map Fin xs) =
        fsqrt (fdiv (exact_sum (map Fin (map (\<lambda>x. (x - ref_mean xs)\<^sup>2) xs)))
                 (Fin (real (length xs) - 1)))"
    unfolding exact_std_ddof1_def Let_def exact_mean_Fin [OF ne] sq length_map rc ..
  also have "\<dots> = Fin (ref_sample_std xs)"
    unfolding exact_sum_Fin using nn pos by (simp add: ref_sample_std_def)
  finally show ?thesis .
qed

lemma unrounded_simps [simp]:
  "np_add unrounded = fadd" "np_sub unrounded = fsub" "np_mul unrounded = fmul"
  "np_div unrounded = fdiv" "np_pow2 unrounded = (\<lambda>a. fmul a a)" "np_sqrt unrounded = fsqrt"
  "np_log unrounded = flog" "np_mean unrounded = exact_mean"
  "np_std_ddof1 unrounded = exact_std_ddof1" "np_trapz unrounded = exact_trapz"
  "np_linspace0 unrounded = exact_linspace0"
  by (simp_all add: unrounded_def)

lemma entropy_example_length:
  "length entropy_example = 30" "length entropy_example_regular = 30"
  by (simp_all add: entropy_example_def entropy_example_regular_def)

lemma entropy_example_std: "ref_sample_std entropy_example = 40"
proof -
  have m: "ref_mean entropy_example = 810"
    by (simp add: ref_mean_def entropy_example_def)
  have "ref_sample_std entropy_example = sqrt 1600"
    unfolding ref_sample_std_def m by (simp add: entropy_example_def)
  also have "sqrt 1600 = 40"
    using real_sqrt_abs [of 40] by simp
  finally show ?thesis .
qed

lemma entropy_example_regular_std: "ref_sample_std entropy_example_regular = 20"
proof -
  have m: "ref_mean entropy_example_regular = 800"
    by (simp add: ref_mean_def entropy_example_regular_def)
  have "ref_sample_std entropy_example_regular = sqrt 400"
    unfolding ref_sample_std_def m by (simp add: entropy_example_regular_def)
  also have "sqrt 400 = 20"
    using real_sqrt_abs [of 20] by simp
  finally show ?thesis .
qed

lemma entropy_example_tolerance:
  "np_mul unrounded (Fin float_0_2) (np_std_ddof1 unrounded (map Fin entropy_example)) =
     Fin (float_0_2 * 40)"
  "np_mul unrounded (Fin float_0_2) (np_std_ddof1 unrounded (map Fin entropy_example_regular)) =
     Fin (float_0_2 * 20)"
  by (simp_all add: exact_std_Fin entropy_example_length entropy_example_std
        entropy_example_regular_std)

text \<open>
  The counts depend on the subtraction only; they are evaluated with the square root and the
  logarithm, which do not evaluate, taken out. On whole numbers of milliseconds a tolerance
  between two consecutive integers counts what the lower one counts.
\<close>

lemma ref_match_count_cong:
  "np_sub np = np_sub np' \<Longrightarrow> ref_match_count np x L cnt r = ref_match_count np' x L cnt r"
  by (simp add: ref_match_count_def)

lemma fle_Fin: "fle (Fin a) (Fin b) \<longleftrightarrow> a \<le> b"
  by (auto simp: fle_def)

lemma close_unrounded:
  "fle (fabs (np_sub unrounded (Fin a) (Fin b))) (Fin r) \<longleftrightarrow> \<bar>a - b\<bar> \<le> r"
  by (simp add: fsub_def fle_Fin)

lemma ref_match_count_tolerance:
  assumes ints: "\<forall>v\<in>set x. v \<in> \<int>" and lo: "real_of_int n \<le> r" and hi: "r < real_of_int n + 1"
    and fit: "cnt + L \<le> length x + 1"
  shows "ref_match_count unrounded x L cnt (Fin r) =
         ref_match_count unrounded x L cnt (Fin (real_of_int n))"
proof -
  have key: "(\<bar>x ! (i + k) - x ! (j + k)\<bar> \<le> r) = (\<bar>x ! (i + k) - x ! (j + k)\<bar> \<le> real_of_int n)"
    if "i < j" "j < cnt" "k < L" for i j k
  proof -
    from that fit have "i + k < length x" "j + k < length x" by auto
    with ints have "x ! (i + k) \<in> \<int>" "x ! (j + k) \<in> \<int>" by auto
    then have "\<bar>x ! (i + k) - x ! (j + k)\<bar> \<in> \<int>" by auto
    then obtain z where z: "\<bar>x ! (i + k) - x ! (j + k)\<bar> = real_of_int z"
      by (auto elim: Ints_cases)
    have "(real_of_int z \<le> r) = (z \<le> n)"
    proof
      assume "real_of_int z \<le> r"
      with hi have "real_of_int z < real_of_int (n + 1)" by simp
      then have "z < n + 1" by (simp only: of_int_less_iff)
      then show "z \<le> n" by simp
    next
      assume "z \<le> n"
      then have "real_of_int z \<le> real_of_int n" by simp
      with lo show "real_of_int z \<le> r" by simp
    qed
    then show ?thesis unfolding z by simp
  qed
  have "{(i, j). i < j \<and> j < cnt \<and> (\<forall>k<L. \<bar>x ! (i + k) - x ! (j + k)\<bar> \<le> r)} =
        {(i, j). i < j \<and> j < cnt \<and> (\<forall>k<L. \<bar>x ! (i + k) - x ! (j + k)\<bar> \<le> real_of_int n)}"
    using key by auto
  then show ?thesis unfolding ref_match_count_def close_unrounded by simp
qed

lemma entropy_example_counts:
  "ref_match_count unrounded entropy_example 2 28 (Fin (float_0_2 * 40)) = 1"
  "ref_match_count unrounded entropy_example 3 27 (Fin (float_0_2 * 40)) = 0"
  "ref_match_count unrounded entropy_example 2 29 (Fin (float_0_2 * 40)) = 2"
  "ref_match_count unrounded entropy_example 3 28 (Fin (float_0_2 * 40)) = 1"
proof -
  let ?r = "Fin 8"
  let ?np = "\<lparr>np_add = fadd, np_sub = fsub, np_mul = fmul, np_div = fdiv,
      np_pow2 = (\<lambda>a. fmul a a), np_sqrt = (\<lambda>a. NaN), np_log = (\<lambda>a. NaN),
      np_mean = exact_mean, np_std_ddof1 = (\<lambda>xs. NaN), np_trapz = exact_trapz,
      np_linspace0 = exact_linspace0\<rparr>"
  have a: "count_outer ?np (map (\<lambda>i. take 2 (drop i entropy_example)) [0 ..< 28]) ?r 0
             = Inr 1"
    by code_simp
  have b: "count_outer ?np (map (\<lambda>i. take 3 (drop i entropy_example)) [0 ..< 27]) ?r 0
             = Inr 0"
    by code_simp
  have c: "count_outer ?np (map (\<lambda>i. take 2 (drop i entropy_example)) [0 ..< 29]) ?r 0
             = Inr 2"
    by code_simp
  have d: "count_outer ?np (map (\<lambda>i. take 3 (drop i entropy_example)) [0 ..< 28]) ?r 0
             = Inr 1"
    by code_simp
  have h: "\<forall>i<28. i + 2 \<le> length entropy_example" "\<forall>i<27. i + 3 \<le> length entropy_example"
    "\<forall>i<29. i + 2 \<le> length entropy_example" "\<forall>i<28. i + 3 \<le> length entropy_example"
    by (simp_all add: entropy_example_length)
  have s: "np_sub unrounded = np_sub ?np" by simp
  have ints: "\<forall>v\<in>set entropy_example. v \<in> \<int>" by (simp add: entropy_example_def)
  have lo: "real_of_int 8 \<le> float_0_2 * 40" and hi: "float_0_2 * 40 < real_of_int 8 + 1"
    by (simp_all add: float_0_2_def)
  have u: "ref_match_count unrounded entropy_example L cnt (Fin (float_0_2 * 40)) =
           ref_match_count ?np entropy_example L cnt ?r" if "cnt + L \<le> 31" for L cnt
  proof -
    have "ref_match_count unrounded entropy_example L cnt (Fin (float_0_2 * 40)) =
          ref_match_count unrounded entropy_example L cnt ?r"
      using ref_match_count_tolerance [OF ints lo hi, of cnt L] that
      by (simp add: entropy_example_length)
    also have "\<dots> = ref_match_count ?np entropy_example L cnt ?r"
      by (rule ref_match_count_cong [OF s])
    finally show ?thesis .
  qed
  show "ref_match_count unrounded entropy_example 2 28 (Fin (float_0_2 * 40)) = 1"
    using u [of 28 2] count_templates [OF _ h(1), of ?np ?r] a by simp
  show "ref_match_count unrounded entropy_example 3 27 (Fin (float_0_2 * 40)) = 0"
    using u [of 27 3] count_templates [OF _ h(2), of ?np ?r] b by simp
  show "ref_match_count unrounded entropy_example 2 29 (Fin (float_0_2 * 40)) = 2"
    using u [of 29 2] count_templates [OF _ h(3), of ?np ?r] c by simp
  show "ref_match_count unrounded entropy_example 3 28 (Fin (float_0_2 * 40)) = 1"
    using u [of 28 3] count_templates [OF _ h(4), of ?np ?r] d by simp
qed

lemma entropy_example_regular_counts:
  "ref_match_count unrounded entropy_example_regular 2 28 (Fin (float_0_2 * 20)) = 8"
  "ref_match_count unrounded entropy_example_regular 3 27 (Fin (float_0_2 * 20)) = 1"
proof -
  let ?r = "Fin 4"
  let ?np = "\<lparr>np_add = fadd, np_sub = fsub, np_mul = fmul, np_div = fdiv,
      np_pow2 = (\<lambda>a. fmul a a), np_sqrt = (\<lambda>a. NaN), np_log = (\<lambda>a. NaN),
      np_mean = exact_mean, np_std_ddof1 = (\<lambda>xs. NaN), np_trapz = exact_trapz,
      np_linspace0 = exact_linspace0\<rparr>"
  have a: "count_outer ?np
             (map (\<lambda>i. take 2 (drop i entropy_example_regular)) [0 ..< 28]) ?r 0 = Inr 8"
    by code_simp
  have b: "count_outer ?np
             (map (\<lambda>i. take 3 (drop i entropy_example_regular)) [0 ..< 27]) ?r 0 = Inr 1"
    by code_simp
  have h: "\<forall>i<28. i + 2 \<le> length entropy_example_regular"
    "\<forall>i<27. i + 3 \<le> length entropy_example_regular"
    by (simp_all add: entropy_example_length)
  have s: "np_sub unrounded = np_sub ?np" by simp
  have ints: "\<forall>v\<in>set entropy_example_regular. v \<in> \<int>"
    by (simp add: entropy_example_regular_def)
  have lo: "real_of_int 4 \<le> float_0_2 * 20" and hi: "float_0_2 * 20 < real_of_int 4 + 1"
    by (simp_all add: float_0_2_def)
  have u: "ref_match_count unrounded entropy_example_regular L cnt (Fin (float_0_2 * 20)) =
           ref_match_count ?np entropy_example_regular L cnt ?r" if "cnt + L \<le> 31" for L cnt
  proof -
    have "ref_match_count unrounded entropy_example_regular L cnt (Fin (float_0_2 * 20)) =
          ref_match_count unrounded entropy_example_regular L cnt ?r"
      using ref_match_count_tolerance [OF ints lo hi, of cnt L] that
      by (simp add: entropy_example_length)
    also have "\<dots> = ref_match_count ?np entropy_example_regular L cnt ?r"
      by (rule ref_match_count_cong [OF s])
    finally show ?thesis .
  qed
  show "ref_match_count unrounded entropy_example_regular 2 28 (Fin (float_0_2 * 20)) = 8"
    using u [of 28 2] count_templates [OF _ h(1), of ?np ?r] a by simp
  show "ref_match_count unrounded entropy_example_regular 3 27 (Fin (float_0_2 * 20)) = 1"
    using u [of 27 3] count_templates [OF _ h(2), of ?np ?r] b by simp
qed

lemma float_0_2_nonzero: "float_0_2 \<noteq> 0"
  by (simp add: float_0_2_def)

section \<open>Evaluation of the extractor on whole numbers\<close>

lemma validate_time_domain_mean_high:
  "mean_rr f = Fin m \<Longrightarrow> 3000 < m \<Longrightarrow> \<not> validate_time_domain f"
  by (simp add: validate_time_domain_def Let_def)

lemma ref_replicate:
  "0 < n \<Longrightarrow> ref_mean (replicate n v) = v" "0 < n \<Longrightarrow> ref_sample_std (replicate n v) = 0"
  by (simp_all add: ref_mean_def ref_sample_std_def sum_list_replicate)

lemma td_example:
  "mean_rr (td_raw unrounded (replicate 10 4000)) = Fin 4000"
  "sdnn (td_raw unrounded (replicate 10 4000)) = Fin 0"
proof -
  have m: "mean_rr (td_raw unrounded rr) = exact_mean (map Fin rr)"
    and s: "sdnn (td_raw unrounded rr) = exact_std_ddof1 (map Fin rr)" for rr
    by (simp_all add: td_raw_def Let_def)
  have ne: "replicate 10 (4000::real) \<noteq> []" and l: "2 \<le> length (replicate 10 (4000::real))"
    by simp_all
  show "mean_rr (td_raw unrounded (replicate 10 4000)) = Fin 4000"
    unfolding m exact_mean_Fin [OF ne] by (simp add: ref_replicate)
  show "sdnn (td_raw unrounded (replicate 10 4000)) = Fin 0"
    unfolding s exact_std_Fin [OF l] by (simp add: ref_replicate)
qed

lemma extract_time_domain_long:
  assumes "\<not> int (length rr) < td_min_intervals c"
  shows "td_to_array (extract_time_domain np c rr) = td_to_array (td_raw np rr)"
    and "TimeDomainFeatures.is_valid (extract_time_domain np c rr) =
           validate_time_domain (td_raw np rr)"
    and "mean_rr (extract_time_domain np c rr) = mean_rr (td_raw np rr)"
    and "sdnn (extract_time_domain np c rr) = sdnn (td_raw np rr)"
proof -
  have v: "TimeDomainFeatures.is_valid (td_raw np rr)" by (simp add: td_raw_def Let_def)
  show "td_to_array (extract_time_domain np c rr) = td_to_array (td_raw np rr)"
    using assms by (simp add: extract_time_domain_def Let_def td_to_array_def)
  show "TimeDomainFeatures.is_valid (extract_time_domain np c rr) =
           validate_time_domain (td_raw np rr)"
    using assms v by (simp add: extract_time_domain_def Let_def)
  show "mean_rr (extract_time_domain np c rr) = mean_rr (td_raw np rr)"
    using assms by (simp add: extract_time_domain_def Let_def)
  show "sdnn (extract_time_domain np c rr) = sdnn (td_raw np rr)"
    using assms by (simp add: extract_time_domain_def Let_def)
qed

lemma np_cumsum_from_replicate:
  "np_cumsum_from unrounded (Fin a) (replicate n (Fin v)) =
     map (\<lambda>i. Fin (a + real (Suc i) * v)) [0 ..< n]"
proof (induction n arbitrary: a)
  case 0
  then show ?case by simp
next
  case (Suc n)
  have "map (\<lambda>i. Fin (a + real (Suc i) * v)) [0 ..< Suc n] =
        Fin (a + v) # map (\<lambda>i. Fin (a + v + real (Suc i) * v)) [0 ..< n]"
    unfolding upt_conv_Cons [OF zero_less_Suc] map_Suc_upt [symmetric]
    by (simp add: algebra_simps)
  then show ?case using Suc.IH [of "a + v"] by simp
qed

lemma time_axis_replicate:
  "time_axis unrounded (replicate (Suc n) v) = map (\<lambda>i. Fin (real i * v / 1000)) [0 ..< Suc n]"
proof -
  let ?g = "\<lambda>i. Fin (real i * v / 1000)"
  have c: "np_cumsum unrounded (map Fin (replicate (Suc n) v)) =
           map (\<lambda>i. Fin (real (Suc i) * v)) [0 ..< Suc n]"
  proof -
    have "map (\<lambda>i. Fin (real (Suc i) * v)) [0 ..< Suc n] =
          Fin v # map (\<lambda>i. Fin (v + real (Suc i) * v)) [0 ..< n]"
      unfolding upt_conv_Cons [OF zero_less_Suc] map_Suc_upt [symmetric]
      by (simp add: algebra_simps)
    then show ?thesis using np_cumsum_from_replicate [of v n v] by simp
  qed
  have d: "Fin 0 # map (\<lambda>t. np_div unrounded t (Fin 1000))
                     (map (\<lambda>i. Fin (real (Suc i) * v)) [0 ..< Suc n])
           = map ?g [0 ..< Suc (Suc n)]"
    unfolding upt_conv_Cons [OF zero_less_Suc, of "Suc n"] map_Suc_upt [symmetric]
    by simp
  have "time_axis unrounded (replicate (Suc n) v) =
        butlast (Fin 0 # map (\<lambda>t. np_div unrounded t (Fin 1000))
                           (map (\<lambda>i. Fin (real (Suc i) * v)) [0 ..< Suc n]))"
    unfolding time_axis_def Let_def c ..
  also have "\<dots> = butlast (map ?g [0 ..< Suc (Suc n)])" by (simp only: d)
  also have "\<dots> = map ?g [0 ..< Suc n]" by (simp add: butlast_append)
  finally show ?thesis .
qed

lemma time_axis_replicate_last:
  "time_axis unrounded (replicate (Suc n) v) \<noteq> []"
  "last (time_axis unrounded (replicate (Suc n) v)) = Fin (real n * v / 1000)"
  unfolding time_axis_replicate by simp_all

lemma time_axis_example:
  "time_axis unrounded (replicate 20 1000) \<noteq> []"
  "last (time_axis unrounded (replicate 20 1000)) = Fin 19"
  "time_axis unrounded (replicate 20 125) \<noteq> []"
  "last (time_axis unrounded (replicate 20 125)) = Fin (19 / 8)"
  using time_axis_replicate_last [of 19 1000] time_axis_replicate_last [of 19 125]
  by simp_all

lemma grid_example:
  "uniform_grid unrounded default_extractor (time_axis unrounded (replicate 20 1000)) =
     Inr (map (\<lambda>i. Fin (real i * (19 / 75))) [0 ..< 76])"
  by (simp add: uniform_grid_def time_axis_example exact_linspace0_def)

lemma grid_short_example:
  "uniform_grid unrounded default_extractor (time_axis unrounded (replicate 20 125)) =
     Inr (map (\<lambda>i. Fin (real i * (19 / 64))) [0 ..< 9])"
proof -
  have f: "\<lfloor>19 / 2 :: real\<rfloor> = 9" by linarith
  show ?thesis
    by (simp add: uniform_grid_def time_axis_example exact_linspace0_def f)
qed

lemma fixed_scipy_run:
  "interpolate_rr unrounded default_extractor (fixed_scipy freqs ys) (replicate 20 1000)
     (time_axis unrounded (replicate 20 1000)) =
     Inr (map (\<lambda>t. Fin 1000) (map (\<lambda>i. Fin (real i * (19 / 75))) [0 ..< 76]),
          map (\<lambda>i. Fin (real i * (19 / 75))) [0 ..< 76])"
  "interpolate_rr unrounded default_extractor (fixed_scipy freqs ys) (replicate 20 125)
     (time_axis unrounded (replicate 20 125)) =
     Inr (map (\<lambda>t. Fin 1000) (map (\<lambda>i. Fin (real i * (19 / 64))) [0 ..< 9]),
          map (\<lambda>i. Fin (real i * (19 / 64))) [0 ..< 9])"
  "compute_psd c (fixed_scipy freqs ys) ri = Inr (freqs, map Fin ys)"
  by (simp_all add: interpolate_rr_def grid_example grid_short_example fixed_scipy_def
        compute_psd_def)

lemma extract_frequency_domain_spectral:
  assumes "\<not> int (length rr) < fd_min_intervals c"
    and "interpolate_rr np c lib rr (time_axis np rr) = Inr (rr_interp, t_interp)"
    and "10 \<le> length rr_interp"
    and "compute_psd c lib rr_interp = Inr (freqs, psd)"
  shows "extract_frequency_domain np c lib rr = spectral_features np (length rr) freqs psd"
  using assms by (simp add: extract_frequency_domain_def Let_def)

lemma spectral_features_valid:
  assumes "band_power np freqs psd LF_BAND = Fin lf" "0 \<le> lf"
    and "band_power np freqs psd HF_BAND = Fin hf" "0 \<le> hf"
  shows "FrequencyDomainFeatures.is_valid (spectral_features np n freqs psd)"
  using assms by (simp add: spectral_features_def Let_def validate_frequency_domain_def)

lemma frequency_invalid:
  assumes "spectral_power_not_negative np c lib rr"
    and "\<not> FrequencyDomainFeatures.is_valid (extract_frequency_domain np c lib rr)"
  shows "extract_frequency_domain np c lib rr = invalid_frequency_domain (length rr)"
proof (cases "int (length rr) < fd_min_intervals c")
  case True
  then show ?thesis by (simp add: extract_frequency_domain_def)
next
  case long: False
  show ?thesis
  proof (cases "interpolate_rr np c lib rr (time_axis np rr)")
    case (Inl e)
    with long show ?thesis by (simp add: extract_frequency_domain_def Let_def)
  next
    case (Inr p)
    obtain ri t where p: "p = (ri, t)" by (cases p)
    show ?thesis
    proof (cases "length ri < 10")
      case True
      with long Inr p show ?thesis by (simp add: extract_frequency_domain_def Let_def)
    next
      case enough: False
      show ?thesis
      proof (cases "compute_psd c lib ri")
        case (Inl e)
        with long Inr p enough show ?thesis
          by (simp add: extract_frequency_domain_def Let_def)
      next
        case psd: (Inr q)
        obtain freqs psd where q: "q = (freqs, psd)" by (cases q)
        from assms(1) Inr p psd q obtain lf hf where
          "band_power np freqs psd LF_BAND = Fin lf" "0 \<le> lf"
          "band_power np freqs psd HF_BAND = Fin hf" "0 \<le> hf"
          unfolding spectral_power_not_negative_def by blast
        then have "FrequencyDomainFeatures.is_valid (spectral_features np (length rr) freqs psd)"
          by (rule spectral_features_valid)
        moreover have "extract_frequency_domain np c lib rr =
                       spectral_features np (length rr) freqs psd"
          using long Inr p enough psd q by (simp add: extract_frequency_domain_def Let_def)
        ultimately show ?thesis using assms(2) by simp
      qed
    qed
  qed
qed

lemma nonlinear_invalid:
  assumes law: "log_of_ratio_not_positive np"
    and inv: "\<not> NonlinearFeatures.is_valid (extract_nonlinear np c rr)"
  shows "sample_entropy (extract_nonlinear np c rr) = NaN"
proof (cases "int (length rr) < nl_min_intervals c")
  case True
  then show ?thesis by (simp add: extract_nonlinear_def invalid_nonlinear_def)
next
  case long: False
  show ?thesis
  proof (cases "sample_entropy_of np rr (nl_m c) (nl_r_factor c)")
    case (Inl e)
    then show ?thesis by (simp add: extract_nonlinear_raises invalid_nonlinear_def)
  next
    case (Inr v)
    note e = extract_nonlinear_eq [OF long Inr]
    from inv have bad: "\<not> (isfinite v \<and> \<not> fless v (Fin 0))" unfolding e by simp
    let ?r = "np_mul np (Fin (nl_r_factor c)) (np_std_ddof1 np (map Fin rr))"
    have "v = NaN"
    proof (cases "nl_m c = 0")
      case True
      show ?thesis
      proof (cases "?r = Fin 0")
        case True
        with Inr have "v = Fin 0" by (simp add: sample_entropy_of_def Let_def)
        with bad show ?thesis by simp
      next
        case nz: False
        show ?thesis
        proof (cases "count_matches np rr 0 ?r")
          case (Inl e)
          with Inr nz True show ?thesis by (simp add: sample_entropy_of_def Let_def)
        next
          case B: (Inr B)
          then have "B = 0" by (rule count_matches_zero_length)
          with Inr nz True B show ?thesis
            by (simp add: sample_entropy_of_def Let_def split: sum.splits)
        qed
      qed
    next
      case False
      then have m: "1 \<le> nl_m c" by simp
      let ?B = "ref_match_count np rr (nl_m c) (length rr - nl_m c) ?r"
      let ?A = "ref_match_count np rr (nl_m c + 1) (length rr - (nl_m c + 1)) ?r"
      from Inr sample_entropy_of_ref [OF m, of np rr "nl_r_factor c"]
      have "v = ref_sample_entropy np (offsets_range (length rr)) rr (nl_m c) (nl_r_factor c)"
        by simp
      then have v: "v = (if ?r = Fin 0 then Fin 0 else if ?A = 0 \<or> ?B = 0 then NaN
                    else fneg (np_log np (np_div np (Fin (real ?A)) (Fin (real ?B)))))"
        unfolding ref_sample_entropy_def Let_def offsets_range_def .
      show ?thesis
      proof (cases "?r = Fin 0")
        case True
        with v bad show ?thesis by simp
      next
        case nz: False
        show ?thesis
        proof (cases "?A = 0 \<or> ?B = 0")
          case True
          with v nz show ?thesis by simp
        next
          case False
          then have "0 < ?A" by simp
          moreover have "?A \<le> ?B" by (rule ref_match_count_mono)
          ultimately obtain l where
            l: "np_log np (np_div np (Fin (real ?A)) (Fin (real ?B))) = Fin l" "l \<le> 0"
            using law unfolding log_of_ratio_not_positive_def by blast
          from v nz False l have "v = Fin (- l)" by simp
          with l(2) bad show ?thesis by simp
        qed
      qed
    qed
    then show ?thesis unfolding e by simp
  qed
qed

lemma log_law_unrounded: "log_of_ratio_not_positive unrounded"
  unfolding log_of_ratio_not_positive_def
proof (intro allI impI)
  fix A B :: nat
  assume h: "0 < A \<and> A \<le> B"
  then have q: "0 < real A / real B" "real A / real B \<le> 1" by simp_all
  from h have "np_log unrounded (np_div unrounded (Fin (real A)) (Fin (real B))) =
        Fin (ln (real A / real B))"
    by simp
  moreover from q have "ln (real A / real B) \<le> 0" by (simp only: ln_le_zero_iff)
  ultimately show "\<exists>l. np_log unrounded (np_div unrounded (Fin (real A)) (Fin (real B))) = Fin l
                     \<and> l \<le> 0"
    by blast
qed

lemma entropy_example_nonlinear:
  "extract_nonlinear unrounded default_extractor entropy_example =
     \<lparr>sample_entropy = NaN, num_intervals = 30, is_valid = False\<rparr>"
proof -
  have long: "\<not> int (length entropy_example) < nl_min_intervals default_extractor"
    by (simp add: entropy_example_length)
  have code: "ref_sample_entropy unrounded (offsets_range 30) entropy_example 2 float_0_2 = NaN"
    unfolding ref_sample_entropy_def Let_def entropy_example_tolerance offsets_range_def
    by (simp add: entropy_example_counts float_0_2_nonzero)
  have "sample_entropy_of unrounded entropy_example (nl_m default_extractor)
          (nl_r_factor default_extractor) = Inr NaN"
    using sample_entropy_of_ref [of 2 unrounded entropy_example float_0_2] code
    by (simp add: entropy_example_length)
  from extract_nonlinear_eq [OF long this] show ?thesis
    by (simp add: entropy_example_length)
qed

lemma band_example:
  "band_power unrounded [1/16, 1/8, 1/4, 3/8] [Fin 5, Fin 7, Fin 1, Fin 1] LF_BAND = Fin (3 / 8)"
  "band_power unrounded [1/16, 1/8, 1/4, 3/8] [Fin 5, Fin 7, Fin 1, Fin 1] HF_BAND = Fin (1 / 8)"
  "band_power unrounded [1/16, 1/8] [Fin 5, Fin 7] LF_BAND = Fin (3 / 8)"
  "band_power unrounded [1/16, 1/8] [Fin 5, Fin 7] HF_BAND = Fin 0"
  "band_power unrounded [1/2] [Fin 5] LF_BAND = Fin 0"
  "band_power unrounded [1/2] [Fin 5] HF_BAND = Fin 0"
  by (simp_all add: band_power_def band_bins_def LF_BAND_def HF_BAND_def float_0_04_def
        float_0_15_def float_0_40_def fsub_def)

lemma fixed_scipy_nonnegative:
  "spectral_power_not_negative unrounded c (fixed_scipy [1/16, 1/8, 1/4, 3/8] [5, 7, 1, 1]) rr"
  unfolding spectral_power_not_negative_def
proof (intro allI impI)
  fix ri t freqs psd
  assume "interpolate_rr unrounded c (fixed_scipy [1/16, 1/8, 1/4, 3/8] [5, 7, 1, 1]) rr
            (time_axis unrounded rr) = Inr (ri, t)
          \<and> compute_psd c (fixed_scipy [1/16, 1/8, 1/4, 3/8] [5, 7, 1, 1]) ri = Inr (freqs, psd)"
  then have f: "freqs = [1/16, 1/8, 1/4, 3/8]" and p: "psd = [Fin 5, Fin 7, Fin 1, Fin 1]"
    by (simp_all add: fixed_scipy_run(3))
  have "band_power unrounded freqs psd LF_BAND = Fin (3 / 8) \<and> (0::real) \<le> 3 / 8
        \<and> band_power unrounded freqs psd HF_BAND = Fin (1 / 8) \<and> (0::real) \<le> 1 / 8"
    unfolding f p by (simp add: band_example)
  then show "\<exists>lf hf. band_power unrounded freqs psd LF_BAND = Fin lf \<and> 0 \<le> lf
               \<and> band_power unrounded freqs psd HF_BAND = Fin hf \<and> 0 \<le> hf"
    by blast
qed

section \<open>Invalid domain results\<close>

text \<open>
  Ten intervals of 4000 ms, where no operation rounds: the mean is above 3000, the validity
  check of the time domain fails, and the result that is marked invalid keeps the computed
  mean 4000 and the computed deviation 0.
\<close>

theorem invalid_keeps_values_counterexample:
  "\<not> TimeDomainFeatures.is_valid
       (extract_time_domain unrounded default_extractor (replicate 10 4000))
   \<and> mean_rr (extract_time_domain unrounded default_extractor (replicate 10 4000)) = Fin 4000
   \<and> sdnn (extract_time_domain unrounded default_extractor (replicate 10 4000)) = Fin 0"
proof -
  have ns: "\<not> int (length (replicate 10 (4000::real))) < td_min_intervals default_extractor"
    by simp
  have v: "\<not> validate_time_domain (td_raw unrounded (replicate 10 4000))"
    by (rule validate_time_domain_mean_high [OF td_example(1)]) simp
  show ?thesis
    unfolding extract_time_domain_long [OF ns] using v td_example by simp
qed

text \<open>
  C5, as amended. Whatever the \<open>float64\<close> operations return, a nonlinear result with
  \<open>is_valid = False\<close> has \<open>nan\<close> as its sample entropy, given that the logarithm of a quotient
  of counts \<open>0 < A \<le> B\<close> is finite and not positive; a frequency-domain result with
  \<open>is_valid = False\<close> has \<open>nan\<close> in all six fields, given that the band powers of its
  spectral estimate are finite and not negative; an input shorter than \<open>fd_min_intervals\<close>
  gives six \<open>nan\<close> frequency-domain fields and \<open>is_valid = False\<close>. A time-domain result
  with \<open>is_valid = False\<close> has \<open>nan\<close> in all eight fields when the input is shorter than
  \<open>td_min_intervals\<close>; otherwise it keeps the values computed before the validity check,
  which has failed.
\<close>

theorem invalid_results_nan:
  "(log_of_ratio_not_positive np
      \<and> \<not> NonlinearFeatures.is_valid (extract_nonlinear np c rr) \<longrightarrow>
      nl_to_array (extract_nonlinear np c rr) = [NaN])
   \<and> (spectral_power_not_negative np c lib rr
      \<and> \<not> FrequencyDomainFeatures.is_valid (extract_frequency_domain np c lib rr) \<longrightarrow>
      fd_to_array (extract_frequency_domain np c lib rr) = replicate 6 NaN)
   \<and> (int (length rr) < fd_min_intervals c \<longrightarrow>
      fd_to_array (extract_frequency_domain np c lib rr) = replicate 6 NaN
      \<and> \<not> FrequencyDomainFeatures.is_valid (extract_frequency_domain np c lib rr))
   \<and> (int (length rr) < td_min_intervals c \<longrightarrow>
      td_to_array (extract_time_domain np c rr) = replicate 8 NaN
      \<and> \<not> TimeDomainFeatures.is_valid (extract_time_domain np c rr))
   \<and> (td_min_intervals c \<le> int (length rr)
      \<and> \<not> TimeDomainFeatures.is_valid (extract_time_domain np c rr) \<longrightarrow>
      td_to_array (extract_time_domain np c rr) = td_to_array (td_raw np rr)
      \<and> \<not> validate_time_domain (td_raw np rr))"
proof (intro conjI impI)
  assume "log_of_ratio_not_positive np
      \<and> \<not> NonlinearFeatures.is_valid (extract_nonlinear np c rr)"
  then show "nl_to_array (extract_nonlinear np c rr) = [NaN]"
    using nonlinear_invalid [of np c rr] by (simp add: nl_to_array_def)
next
  assume "spectral_power_not_negative np c lib rr
      \<and> \<not> FrequencyDomainFeatures.is_valid (extract_frequency_domain np c lib rr)"
  then have "extract_frequency_domain np c lib rr = invalid_frequency_domain (length rr)"
    using frequency_invalid [of np c lib rr] by simp
  then show "fd_to_array (extract_frequency_domain np c lib rr) = replicate 6 NaN"
    by (simp add: invalid_frequency_domain_def fd_to_array_def eval_nat_numeral)
next
  assume "int (length rr) < fd_min_intervals c"
  then have "extract_frequency_domain np c lib rr = invalid_frequency_domain (length rr)"
    by (simp add: extract_frequency_domain_def)
  then show "fd_to_array (extract_frequency_domain np c lib rr) = replicate 6 NaN"
    and "\<not> FrequencyDomainFeatures.is_valid (extract_frequency_domain np c lib rr)"
    by (simp_all add: invalid_frequency_domain_def fd_to_array_def eval_nat_numeral)
next
  assume "int (length rr) < td_min_intervals c"
  then have "extract_time_domain np c rr = invalid_time_domain (length rr)"
    by (simp add: extract_time_domain_def)
  then show "td_to_array (extract_time_domain np c rr) = replicate 8 NaN"
    and "\<not> TimeDomainFeatures.is_valid (extract_time_domain np c rr)"
    by (simp_all add: invalid_time_domain_def td_to_array_def eval_nat_numeral)
next
  assume h: "td_min_intervals c \<le> int (length rr)
      \<and> \<not> TimeDomainFeatures.is_valid (extract_time_domain np c rr)"
  then have long: "\<not> int (length rr) < td_min_intervals c" by simp
  show "td_to_array (extract_time_domain np c rr) = td_to_array (td_raw np rr)"
    by (rule extract_time_domain_long(1) [OF long])
  show "\<not> validate_time_domain (td_raw np rr)"
    using h extract_time_domain_long(2) [OF long, of np] by simp
qed

theorem invalid_results_nan_witness:
  "nl_to_array (extract_nonlinear unrounded default_extractor entropy_example) = [NaN]
   \<and> fd_to_array (extract_frequency_domain unrounded default_extractor
         (fixed_scipy [1/16, 1/8, 1/4, 3/8] [5, 7, 1, 1]) (replicate 20 125)) = replicate 6 NaN
   \<and> fd_to_array (extract_frequency_domain unrounded default_extractor
         (fixed_scipy [1/16, 1/8, 1/4, 3/8] [5, 7, 1, 1]) (replicate 19 800)) = replicate 6 NaN
   \<and> \<not> FrequencyDomainFeatures.is_valid (extract_frequency_domain unrounded default_extractor
         (fixed_scipy [1/16, 1/8, 1/4, 3/8] [5, 7, 1, 1]) (replicate 19 800))
   \<and> td_to_array (extract_time_domain unrounded default_extractor (replicate 9 800)) =
       replicate 8 NaN
   \<and> \<not> TimeDomainFeatures.is_valid
         (extract_time_domain unrounded default_extractor (replicate 9 800))
   \<and> td_to_array (extract_time_domain unrounded default_extractor (replicate 10 4000)) =
       td_to_array (td_raw unrounded (replicate 10 4000))
   \<and> \<not> validate_time_domain (td_raw unrounded (replicate 10 4000))"
proof -
  let ?lib = "fixed_scipy [1/16, 1/8, 1/4, 3/8] [5, 7, 1, 1]"
  have n1: "\<not> NonlinearFeatures.is_valid
               (extract_nonlinear unrounded default_extractor entropy_example)"
    by (simp add: entropy_example_nonlinear)
  have 1: "nl_to_array (extract_nonlinear unrounded default_extractor entropy_example) = [NaN]"
    using invalid_results_nan [of unrounded default_extractor entropy_example ?lib]
      log_law_unrounded n1 by blast
  have f2: "\<not> FrequencyDomainFeatures.is_valid
               (extract_frequency_domain unrounded default_extractor ?lib (replicate 20 125))"
    by (simp add: extract_frequency_domain_def Let_def fixed_scipy_run(2)
          invalid_frequency_domain_def)
  have 2: "fd_to_array (extract_frequency_domain unrounded default_extractor ?lib
             (replicate 20 125)) = replicate 6 NaN"
    using invalid_results_nan [of unrounded default_extractor "replicate 20 125" ?lib]
      fixed_scipy_nonnegative [of default_extractor "replicate 20 125"] f2 by blast
  have s3: "int (length (replicate 19 (800::real))) < fd_min_intervals default_extractor"
    by simp
  have 3: "fd_to_array (extract_frequency_domain unrounded default_extractor ?lib
             (replicate 19 800)) = replicate 6 NaN
     \<and> \<not> FrequencyDomainFeatures.is_valid
           (extract_frequency_domain unrounded default_extractor ?lib (replicate 19 800))"
    using invalid_results_nan [of unrounded default_extractor "replicate 19 800" ?lib] s3
    by blast
  have s4: "int (length (replicate 9 (800::real))) < td_min_intervals default_extractor"
    by simp
  have 4: "td_to_array (extract_time_domain unrounded default_extractor (replicate 9 800)) =
             replicate 8 NaN
     \<and> \<not> TimeDomainFeatures.is_valid
           (extract_time_domain unrounded default_extractor (replicate 9 800))"
    using invalid_results_nan [of unrounded default_extractor "replicate 9 800" ?lib] s4
    by blast
  have l5: "td_min_intervals default_extractor \<le> int (length (replicate 10 (4000::real)))"
    by simp
  have ns: "\<not> int (length (replicate 10 (4000::real))) < td_min_intervals default_extractor"
    by simp
  have "\<not> validate_time_domain (td_raw unrounded (replicate 10 4000))"
    by (rule validate_time_domain_mean_high [OF td_example(1)]) simp
  then have i5: "\<not> TimeDomainFeatures.is_valid
                    (extract_time_domain unrounded default_extractor (replicate 10 4000))"
    unfolding extract_time_domain_long(2) [OF ns] .
  have 5: "td_to_array (extract_time_domain unrounded default_extractor (replicate 10 4000)) =
             td_to_array (td_raw unrounded (replicate 10 4000))
     \<and> \<not> validate_time_domain (td_raw unrounded (replicate 10 4000))"
    using invalid_results_nan [of unrounded default_extractor "replicate 10 4000" ?lib] l5 i5
    by blast
  from 1 2 3 4 5 show ?thesis by blast
qed

section \<open>Nonlinear domain: sample entropy\<close>

text \<open>
  With the arithmetic that does not round, the standard deviation of the thirty intervals of
  \<open>entropy_example\<close> is 40 and the tolerance is \<open>float_0_2 * 40\<close>, just above 8 (numpy
  rounds it to 8; every difference of two intervals is a multiple of 10, so the matches are
  the same). The only two matching templates of length 3 start at the offsets 23 and 27, and
  27 is the last valid offset: the extractor finds no match of length 3 and returns the
  undefined value, marked invalid, while the counts over the templates at each valid
  starting offset, as C7 has them, are \<open>A = 1\<close> and \<open>B = 2\<close>, with the entropy \<open>- ln (1/2)\<close>.
\<close>

theorem sample_entropy_counterexample:
  "length entropy_example = 30
   \<and> sample_entropy (extract_nonlinear unrounded default_extractor entropy_example) = NaN
   \<and> \<not> NonlinearFeatures.is_valid (extract_nonlinear unrounded default_extractor entropy_example)
   \<and> ref_sample_entropy unrounded (offsets_all_valid 30) entropy_example 2 float_0_2 =
       Fin (- ln (1 / 2))"
proof -
  have long: "\<not> int (length entropy_example) < nl_min_intervals default_extractor"
    by (simp add: entropy_example_length)
  have code: "ref_sample_entropy unrounded (offsets_range 30) entropy_example 2 float_0_2 = NaN"
    unfolding ref_sample_entropy_def Let_def entropy_example_tolerance offsets_range_def
    by (simp add: entropy_example_counts float_0_2_nonzero)
  have "sample_entropy_of unrounded entropy_example (nl_m default_extractor)
          (nl_r_factor default_extractor) = Inr NaN"
    using sample_entropy_of_ref [of 2 unrounded entropy_example float_0_2] code
    by (simp add: entropy_example_length)
  from extract_nonlinear_eq [OF long this]
  have e: "extract_nonlinear unrounded default_extractor entropy_example =
             \<lparr>sample_entropy = NaN, num_intervals = length entropy_example, is_valid = False\<rparr>"
    by simp
  have claim: "ref_sample_entropy unrounded (offsets_all_valid 30) entropy_example 2 float_0_2 =
                 Fin (- ln (1 / 2))"
    unfolding ref_sample_entropy_def Let_def entropy_example_tolerance offsets_all_valid_def
    by (simp add: entropy_example_counts float_0_2_nonzero)
  show ?thesis unfolding e using claim by (simp add: entropy_example_length)
qed

text \<open>
  C7, as amended. For at least \<open>nl_min_intervals\<close> intervals and an embedding length of at
  least 1, whatever the \<open>float64\<close> operations return: the tolerance \<open>r\<close> is the product, as
  computed, of \<open>r_factor\<close> and numpy's sample standard deviation; the templates of length \<open>L\<close>
  start at the offsets \<open>0, \<dots>, N - L - 1\<close> (the last valid offset \<open>N - L\<close> is not used); \<open>B\<close>
  and \<open>A\<close> count the pairs \<open>i < j\<close> of templates of length \<open>m\<close> and \<open>m + 1\<close> whose computed
  Chebyshev distance is at most \<open>r\<close>. The sample entropy is 0 and valid when \<open>r = 0\<close>,
  undefined and invalid when \<open>A\<close> or \<open>B\<close> is 0, and the negated computed logarithm of the
  computed quotient \<open>A / B\<close> otherwise.
\<close>

theorem sample_entropy_reference:
  fixes np :: numpy and c :: extractor_config and rr :: "real list"
  defines "r \<equiv> np_mul np (Fin (nl_r_factor c)) (np_std_ddof1 np (map Fin rr))"
  defines "B \<equiv> ref_match_count np rr (nl_m c) (length rr - nl_m c) r"
  defines "A \<equiv> ref_match_count np rr (nl_m c + 1) (length rr - (nl_m c + 1)) r"
  assumes "nl_min_intervals c \<le> int (length rr)" and "1 \<le> nl_m c"
  shows "sample_entropy (extract_nonlinear np c rr) =
           ref_sample_entropy np (offsets_range (length rr)) rr (nl_m c) (nl_r_factor c)
   \<and> (r = Fin 0 \<longrightarrow>
        sample_entropy (extract_nonlinear np c rr) = Fin 0
        \<and> NonlinearFeatures.is_valid (extract_nonlinear np c rr))
   \<and> (r \<noteq> Fin 0 \<and> (A = 0 \<or> B = 0) \<longrightarrow>
        sample_entropy (extract_nonlinear np c rr) = NaN
        \<and> \<not> NonlinearFeatures.is_valid (extract_nonlinear np c rr))
   \<and> (r \<noteq> Fin 0 \<and> A \<noteq> 0 \<and> B \<noteq> 0 \<longrightarrow>
        sample_entropy (extract_nonlinear np c rr) =
          fneg (np_log np (np_div np (Fin (real A)) (Fin (real B)))))"
proof -
  from assms(4) have long: "\<not> int (length rr) < nl_min_intervals c" by simp
  let ?v = "ref_sample_entropy np (offsets_range (length rr)) rr (nl_m c) (nl_r_factor c)"
  note e = extract_nonlinear_eq [OF long sample_entropy_of_ref [OF assms(5)]]
  have v: "?v = (if r = Fin 0 then Fin 0 else if A = 0 \<or> B = 0 then NaN
                 else fneg (np_log np (np_div np (Fin (real A)) (Fin (real B)))))"
    unfolding ref_sample_entropy_def Let_def offsets_range_def r_def A_def B_def ..
  have 1: "sample_entropy (extract_nonlinear np c rr) = ?v" unfolding e by simp
  have 2: "r = Fin 0 \<longrightarrow>
        sample_entropy (extract_nonlinear np c rr) = Fin 0
        \<and> NonlinearFeatures.is_valid (extract_nonlinear np c rr)"
    unfolding e v by simp
  have 3: "r \<noteq> Fin 0 \<and> (A = 0 \<or> B = 0) \<longrightarrow>
        sample_entropy (extract_nonlinear np c rr) = NaN
        \<and> \<not> NonlinearFeatures.is_valid (extract_nonlinear np c rr)"
    unfolding e v by simp
  have 4: "r \<noteq> Fin 0 \<and> A \<noteq> 0 \<and> B \<noteq> 0 \<longrightarrow>
        sample_entropy (extract_nonlinear np c rr) =
          fneg (np_log np (np_div np (Fin (real A)) (Fin (real B))))"
    unfolding e v by simp
  from 1 2 3 4 show ?thesis by blast
qed

theorem sample_entropy_reference_witness:
  "sample_entropy (extract_nonlinear unrounded default_extractor entropy_example) = NaN
   \<and> \<not> NonlinearFeatures.is_valid (extract_nonlinear unrounded default_extractor entropy_example)
   \<and> sample_entropy (extract_nonlinear unrounded default_extractor entropy_example_regular) =
       fneg (np_log unrounded (np_div unrounded (Fin 1) (Fin 8)))
   \<and> sample_entropy (extract_nonlinear unrounded default_extractor (replicate 30 800)) = Fin 0
   \<and> NonlinearFeatures.is_valid
       (extract_nonlinear unrounded default_extractor (replicate 30 800))"
proof -
  have h1: "nl_min_intervals default_extractor \<le> int (length entropy_example)"
    "1 \<le> nl_m default_extractor"
    by (simp_all add: entropy_example_length)
  note T1 = sample_entropy_reference [OF h1, of unrounded, unfolded default_extractor_simps
      entropy_example_length entropy_example_tolerance]
  have 1: "sample_entropy (extract_nonlinear unrounded default_extractor entropy_example) = NaN
   \<and> \<not> NonlinearFeatures.is_valid (extract_nonlinear unrounded default_extractor entropy_example)"
    using T1 [THEN conjunct2] by (simp add: entropy_example_counts float_0_2_nonzero)
  have h2: "nl_min_intervals default_extractor \<le> int (length entropy_example_regular)"
    "1 \<le> nl_m default_extractor"
    by (simp_all add: entropy_example_length)
  note T2 = sample_entropy_reference [OF h2, of unrounded, unfolded default_extractor_simps
      entropy_example_length entropy_example_tolerance]
  have 2: "sample_entropy (extract_nonlinear unrounded default_extractor entropy_example_regular)
             = fneg (np_log unrounded (np_div unrounded (Fin 1) (Fin 8)))"
    using T2 [THEN conjunct2] by (simp add: entropy_example_regular_counts float_0_2_nonzero)
  have h3: "nl_min_intervals default_extractor \<le> int (length (replicate 30 (800::real)))"
    "1 \<le> nl_m default_extractor"
    by simp_all
  have s3: "np_mul unrounded (Fin float_0_2)
              (np_std_ddof1 unrounded (map Fin (replicate 30 800))) = Fin 0"
  proof -
    have "ref_mean (replicate 30 800) = 800" by (simp add: ref_mean_def sum_list_replicate)
    then have "ref_sample_std (replicate 30 800) = 0"
      by (simp add: ref_sample_std_def sum_list_replicate)
    with exact_std_Fin [of "replicate 30 800"]
    have "exact_std_ddof1 (map Fin (replicate 30 800)) = Fin 0" by simp
    then show ?thesis by simp
  qed
  note T3 = sample_entropy_reference [OF h3, of unrounded, unfolded default_extractor_simps s3]
  have 3: "sample_entropy (extract_nonlinear unrounded default_extractor (replicate 30 800))
             = Fin 0
   \<and> NonlinearFeatures.is_valid
       (extract_nonlinear unrounded default_extractor (replicate 30 800))"
    using T3 [THEN conjunct2] by simp
  from 1 2 3 show ?thesis by blast
qed

section \<open>Frequency domain: band powers\<close>

text \<open>
  The two bands of C8 are not disjoint: both masks of \<open>_band_power\<close> include their end
  points, so a bin at the \<open>float64\<close> value of 0.15 Hz is selected for the low-frequency band
  and for the high-frequency band.
\<close>

theorem band_powers_counterexample:
  "band_bins [1/8, float_0_15, 1/4] [Fin 1, Fin 2, Fin 3] LF_BAND =
     [(1/8, Fin 1), (float_0_15, Fin 2)]
   \<and> band_bins [1/8, float_0_15, 1/4] [Fin 1, Fin 2, Fin 3] HF_BAND =
     [(float_0_15, Fin 2), (1/4, Fin 3)]
   \<and> set (band_bins [1/8, float_0_15, 1/4] [Fin 1, Fin 2, Fin 3] LF_BAND)
       \<inter> set (band_bins [1/8, float_0_15, 1/4] [Fin 1, Fin 2, Fin 3] HF_BAND) \<noteq> {}"
proof -
  have l: "band_bins [1/8, float_0_15, 1/4] [Fin 1, Fin 2, Fin 3] LF_BAND =
             [(1/8, Fin 1), (float_0_15, Fin 2)]"
    by (simp add: band_bins_def LF_BAND_def float_0_04_def float_0_15_def)
  have h: "band_bins [1/8, float_0_15, 1/4] [Fin 1, Fin 2, Fin 3] HF_BAND =
             [(float_0_15, Fin 2), (1/4, Fin 3)]"
    by (simp add: band_bins_def HF_BAND_def float_0_40_def float_0_15_def)
  show ?thesis unfolding l h by simp
qed

text \<open>
  C8, as amended. When the interpolation and the spectral estimate succeed with at least 10
  samples, whatever the \<open>float64\<close> operations return: \<open>lf_power\<close> and \<open>hf_power\<close> are
  numpy's trapezoidal rule over the bins of two adjacent closed bands, from 0.04 to 0.15 Hz
  and from 0.15 to 0.40 Hz, which share the end point 0.15 Hz (a bin there belongs to both),
  a band without a bin giving 0; \<open>total_power\<close> is their sum; \<open>lf_hf_ratio\<close> is their
  quotient when \<open>hf_power\<close> is positive and \<open>nan\<close> otherwise, so when \<open>hf_power\<close> is 0;
  \<open>lf_nu\<close> and \<open>hf_nu\<close> are the shares of the total times 100 when the total is positive and
  \<open>nan\<close> otherwise, so when the total is 0.
\<close>

theorem band_powers:
  fixes np :: numpy and c :: extractor_config and lib :: scipy and rr freqs :: "real list"
    and psd :: "fnum list"
  defines "F \<equiv> extract_frequency_domain np c lib rr"
  defines "lf_bins \<equiv> filter (\<lambda>(f, p). float_0_04 \<le> f \<and> f \<le> float_0_15) (zip freqs psd)"
  defines "hf_bins \<equiv> filter (\<lambda>(f, p). float_0_15 \<le> f \<and> f \<le> float_0_40) (zip freqs psd)"
  assumes "fd_min_intervals c \<le> int (length rr)"
    and "interpolate_rr np c lib rr (time_axis np rr) = Inr (rr_interp, t_interp)"
    and "10 \<le> length rr_interp"
    and "compute_psd c lib rr_interp = Inr (freqs, psd)"
  shows "lf_power F =
           (if lf_bins = [] then Fin 0
            else np_trapz np (map snd lf_bins) (map (\<lambda>p. Fin (fst p)) lf_bins))
   \<and> hf_power F =
           (if hf_bins = [] then Fin 0
            else np_trapz np (map snd hf_bins) (map (\<lambda>p. Fin (fst p)) hf_bins))
   \<and> total_power F = np_add np (lf_power F) (hf_power F)
   \<and> lf_hf_ratio F =
           (if fless (Fin 0) (hf_power F) then np_div np (lf_power F) (hf_power F) else NaN)
   \<and> lf_nu F =
           (if fless (Fin 0) (total_power F)
            then np_mul np (np_div np (lf_power F) (total_power F)) (Fin 100) else NaN)
   \<and> hf_nu F =
           (if fless (Fin 0) (total_power F)
            then np_mul np (np_div np (hf_power F) (total_power F)) (Fin 100) else NaN)
   \<and> (hf_power F = Fin 0 \<longrightarrow> lf_hf_ratio F = NaN)
   \<and> (total_power F = Fin 0 \<longrightarrow> lf_nu F = NaN \<and> hf_nu F = NaN)
   \<and> (\<forall>q\<in>set (zip freqs psd). fst q = float_0_15 \<longrightarrow> q \<in> set lf_bins \<and> q \<in> set hf_bins)"
proof -
  from assms(4) have long: "\<not> int (length rr) < fd_min_intervals c" by simp
  have F: "F = spectral_features np (length rr) freqs psd"
    unfolding F_def by (rule extract_frequency_domain_spectral [OF long assms(5,6,7)])
  have lb: "band_bins freqs psd LF_BAND = lf_bins"
    by (simp add: band_bins_def LF_BAND_def lf_bins_def case_prod_beta)
  have hb: "band_bins freqs psd HF_BAND = hf_bins"
    by (simp add: band_bins_def HF_BAND_def hf_bins_def case_prod_beta)
  have l: "lf_power F =
           (if lf_bins = [] then Fin 0
            else np_trapz np (map snd lf_bins) (map (\<lambda>p. Fin (fst p)) lf_bins))"
    unfolding F by (simp add: spectral_features_def Let_def band_power_def lb)
  have h: "hf_power F =
           (if hf_bins = [] then Fin 0
            else np_trapz np (map snd hf_bins) (map (\<lambda>p. Fin (fst p)) hf_bins))"
    unfolding F by (simp add: spectral_features_def Let_def band_power_def hb)
  have t: "total_power F = np_add np (lf_power F) (hf_power F)"
    unfolding F by (simp add: spectral_features_def Let_def)
  have r: "lf_hf_ratio F =
           (if fless (Fin 0) (hf_power F) then np_div np (lf_power F) (hf_power F) else NaN)"
    unfolding F by (simp add: spectral_features_def Let_def)
  have ln: "lf_nu F =
           (if fless (Fin 0) (total_power F)
            then np_mul np (np_div np (lf_power F) (total_power F)) (Fin 100) else NaN)"
    unfolding F by (simp add: spectral_features_def Let_def)
  have hn: "hf_nu F =
           (if fless (Fin 0) (total_power F)
            then np_mul np (np_div np (hf_power F) (total_power F)) (Fin 100) else NaN)"
    unfolding F by (simp add: spectral_features_def Let_def)
  have rz: "hf_power F = Fin 0 \<longrightarrow> lf_hf_ratio F = NaN"
    using r by simp
  have nz: "total_power F = Fin 0 \<longrightarrow> lf_nu F = NaN \<and> hf_nu F = NaN"
    using ln hn by simp
  have le: "float_0_04 \<le> float_0_15" "float_0_15 \<le> float_0_40"
    by (simp_all add: float_0_04_def float_0_15_def float_0_40_def)
  have sh: "\<forall>q\<in>set (zip freqs psd). fst q = float_0_15 \<longrightarrow> q \<in> set lf_bins \<and> q \<in> set hf_bins"
    using le by (auto simp: lf_bins_def hf_bins_def)
  from l h t r ln hn rz nz sh show ?thesis by blast
qed

theorem band_powers_witness:
  "lf_power (extract_frequency_domain unrounded default_extractor
               (fixed_scipy [1/16, 1/8, 1/4, 3/8] [5, 7, 1, 1]) (replicate 20 1000)) = Fin (3 / 8)
   \<and> hf_power (extract_frequency_domain unrounded default_extractor
               (fixed_scipy [1/16, 1/8, 1/4, 3/8] [5, 7, 1, 1]) (replicate 20 1000)) = Fin (1 / 8)
   \<and> total_power (extract_frequency_domain unrounded default_extractor
               (fixed_scipy [1/16, 1/8, 1/4, 3/8] [5, 7, 1, 1]) (replicate 20 1000)) = Fin (1 / 2)
   \<and> lf_hf_ratio (extract_frequency_domain unrounded default_extractor
               (fixed_scipy [1/16, 1/8, 1/4, 3/8] [5, 7, 1, 1]) (replicate 20 1000)) = Fin 3
   \<and> lf_nu (extract_frequency_domain unrounded default_extractor
               (fixed_scipy [1/16, 1/8, 1/4, 3/8] [5, 7, 1, 1]) (replicate 20 1000)) = Fin 75
   \<and> hf_nu (extract_frequency_domain unrounded default_extractor
               (fixed_scipy [1/16, 1/8, 1/4, 3/8] [5, 7, 1, 1]) (replicate 20 1000)) = Fin 25
   \<and> hf_power (extract_frequency_domain unrounded default_extractor
               (fixed_scipy [1/16, 1/8] [5, 7]) (replicate 20 1000)) = Fin 0
   \<and> lf_hf_ratio (extract_frequency_domain unrounded default_extractor
               (fixed_scipy [1/16, 1/8] [5, 7]) (replicate 20 1000)) = NaN
   \<and> lf_power (extract_frequency_domain unrounded default_extractor
               (fixed_scipy [1/2] [5]) (replicate 20 1000)) = Fin 0
   \<and> lf_nu (extract_frequency_domain unrounded default_extractor
               (fixed_scipy [1/2] [5]) (replicate 20 1000)) = NaN
   \<and> hf_nu (extract_frequency_domain unrounded default_extractor
               (fixed_scipy [1/2] [5]) (replicate 20 1000)) = NaN"
proof -
  let ?F = "\<lambda>fs ys. extract_frequency_domain unrounded default_extractor (fixed_scipy fs ys)
                     (replicate 20 1000)"
  have long: "fd_min_intervals default_extractor \<le> int (length (replicate 20 (1000::real)))"
    by simp
  have n: "10 \<le> length (map (\<lambda>t. Fin 1000) (map (\<lambda>i. Fin (real i * (19 / 75))) [0 ..< 76]))"
    by simp
  note b = float_0_04_def float_0_15_def float_0_40_def
  have i: "interpolate_rr unrounded default_extractor (fixed_scipy fs ys) (replicate 20 1000)
             (time_axis unrounded (replicate 20 1000)) =
           Inr (map (\<lambda>t. Fin 1000) (map (\<lambda>i. Fin (real i * (19 / 75))) [0 ..< 76]),
                map (\<lambda>i. Fin (real i * (19 / 75))) [0 ..< 76])" for fs ys
    by (rule fixed_scipy_run(1))
  have p: "compute_psd default_extractor (fixed_scipy fs ys) ri = Inr (fs, map Fin ys)"
    for fs ys ri
    by (rule fixed_scipy_run(3))
  note A = band_powers [OF long i [of "[1/16, 1/8, 1/4, 3/8]" "[5, 7, 1, 1]"] n
      p [of "[1/16, 1/8, 1/4, 3/8]" "[5, 7, 1, 1]"]]
  have 1: "lf_power (?F [1/16, 1/8, 1/4, 3/8] [5, 7, 1, 1]) = Fin (3 / 8)"
    using A [THEN conjunct1] by (simp add: b fsub_def)
  have 2: "hf_power (?F [1/16, 1/8, 1/4, 3/8] [5, 7, 1, 1]) = Fin (1 / 8)"
    using A [THEN conjunct2, THEN conjunct1] by (simp add: b fsub_def)
  have 3: "total_power (?F [1/16, 1/8, 1/4, 3/8] [5, 7, 1, 1]) = Fin (1 / 2)"
    using A [THEN conjunct2, THEN conjunct2, THEN conjunct1] unfolding 1 2 by simp
  have 4: "lf_hf_ratio (?F [1/16, 1/8, 1/4, 3/8] [5, 7, 1, 1]) = Fin 3"
    using A [THEN conjunct2, THEN conjunct2, THEN conjunct2, THEN conjunct1]
    unfolding 1 2 by simp
  have 5: "lf_nu (?F [1/16, 1/8, 1/4, 3/8] [5, 7, 1, 1]) = Fin 75"
    using A [THEN conjunct2, THEN conjunct2, THEN conjunct2, THEN conjunct2, THEN conjunct1]
    unfolding 1 2 3 by simp
  have 6: "hf_nu (?F [1/16, 1/8, 1/4, 3/8] [5, 7, 1, 1]) = Fin 25"
    using A [THEN conjunct2, THEN conjunct2, THEN conjunct2, THEN conjunct2, THEN conjunct2,
        THEN conjunct1]
    unfolding 1 2 3 by simp
  note B = band_powers [OF long i [of "[1/16, 1/8]" "[5, 7]"] n p [of "[1/16, 1/8]" "[5, 7]"]]
  have 7: "hf_power (?F [1/16, 1/8] [5, 7]) = Fin 0"
    using B [THEN conjunct2, THEN conjunct1] by (simp add: b)
  have 8: "lf_hf_ratio (?F [1/16, 1/8] [5, 7]) = NaN"
    using B [THEN conjunct2, THEN conjunct2, THEN conjunct2, THEN conjunct1]
    unfolding 7 by simp
  note C = band_powers [OF long i [of "[1/2]" "[5]"] n p [of "[1/2]" "[5]"]]
  have 9: "lf_power (?F [1/2] [5]) = Fin 0"
    using C [THEN conjunct1] by (simp add: b)
  have 10: "hf_power (?F [1/2] [5]) = Fin 0"
    using C [THEN conjunct2, THEN conjunct1] by (simp add: b)
  have 11: "total_power (?F [1/2] [5]) = Fin 0"
    using C [THEN conjunct2, THEN conjunct2, THEN conjunct1] unfolding 9 10 by simp
  have 12: "lf_nu (?F [1/2] [5]) = NaN"
    using C [THEN conjunct2, THEN conjunct2, THEN conjunct2, THEN conjunct2, THEN conjunct1]
    unfolding 11 by simp
  have 13: "hf_nu (?F [1/2] [5]) = NaN"
    using C [THEN conjunct2, THEN conjunct2, THEN conjunct2, THEN conjunct2, THEN conjunct2,
        THEN conjunct1]
    unfolding 11 by simp
  from 1 2 3 4 5 6 7 8 9 12 13 show ?thesis by blast
qed

section \<open>Frequency domain: the resampling grid\<close>

text \<open>
  C9 at twenty intervals of 1000 ms with the default rate of 4 Hz, where no operation before
  \<open>np.linspace\<close> rounds: the time axis ends at 19 s and the grid has 76 points, from 0 to 19 s
  with both end points included, so 75 steps of \<open>19 / 75\<close> s. The grid of C9, at 4 Hz over
  the half-open interval from 0 to 19 s, has the 76 points \<open>k / 4\<close> and ends at 18.75 s (over
  the twenty intervals, 20 s, it has 80 points): the extractor resamples at \<open>75 / 19\<close> Hz
  while it passes 4 Hz to Welch's method as the sampling rate.
\<close>

theorem resampling_grid_failing_input:
  "last (time_axis unrounded (replicate 20 1000)) = Fin 19
   \<and> (\<exists>g. uniform_grid unrounded default_extractor (time_axis unrounded (replicate 20 1000))
            = Inr g
          \<and> length g = 76 \<and> g ! 0 = Fin 0 \<and> last g = Fin 19
          \<and> g \<noteq> map Fin (ref_uniform_grid 4 19)
          \<and> g \<noteq> map Fin (ref_uniform_grid 4 20))
   \<and> length (ref_uniform_grid 4 19) = 76
   \<and> last (ref_uniform_grid 4 19) = 75 / 4
   \<and> length (ref_uniform_grid 4 20) = 80"
proof -
  let ?g = "map (\<lambda>i. Fin (real i * (19 / 75))) [0 ..< 76]"
  have s: "(76::nat) = Suc 75" by simp
  have u: "[0 ..< 76] = [0 ..< 75] @ [75]" unfolding s by (rule upt_Suc_append) simp
  have lg: "last ?g = Fin 19" unfolding u by simp
  have n19: "nat \<lceil>19 * 4 :: real\<rceil> = 76" and n20: "nat \<lceil>20 * 4 :: real\<rceil> = 80"
    by simp_all
  have l19: "length (ref_uniform_grid 4 19) = 76" and l20: "length (ref_uniform_grid 4 20) = 80"
    unfolding ref_uniform_grid_def by simp_all
  have r19: "ref_uniform_grid 4 19 = map (\<lambda>k. real k / 4) [0 ..< 75] @ [75 / 4]"
    unfolding ref_uniform_grid_def n19 u by simp
  have last19: "last (ref_uniform_grid 4 19) = 75 / 4" unfolding r19 by simp
  have ne: "ref_uniform_grid 4 19 \<noteq> []" unfolding r19 by simp
  have d19: "?g \<noteq> map Fin (ref_uniform_grid 4 19)"
  proof
    assume "?g = map Fin (ref_uniform_grid 4 19)"
    then have "last ?g = last (map Fin (ref_uniform_grid 4 19))" by simp
    then show False unfolding lg last_map [OF ne] last19 by simp
  qed
  have d20: "?g \<noteq> map Fin (ref_uniform_grid 4 20)"
  proof
    assume "?g = map Fin (ref_uniform_grid 4 20)"
    then have "length ?g = length (map Fin (ref_uniform_grid 4 20))" by simp
    then show False using l20 by simp
  qed
  have z: "?g ! 0 = Fin 0" by (simp add: upt_rec [of 0])
  have "length ?g = 76" by simp
  with grid_example lg d19 d20 z
  have "\<exists>g. uniform_grid unrounded default_extractor (time_axis unrounded (replicate 20 1000))
            = Inr g
          \<and> length g = 76 \<and> g ! 0 = Fin 0 \<and> last g = Fin 19
          \<and> g \<noteq> map Fin (ref_uniform_grid 4 19)
          \<and> g \<noteq> map Fin (ref_uniform_grid 4 20)"
    by blast
  with time_axis_example(2) l19 last19 l20 show ?thesis by blast
qed

end
